theory Spec2Isabelle
  imports Complex_Main "HOL-Library.Option_ord"
begin

section \<open>Strings and numbers as the TypeScript code uses them\<close>

text \<open>
  A JavaScript string is modelled as a \<open>string\<close> (a list of characters); the sources only
  build ASCII query text. The page sizes, offsets and limits are JavaScript numbers that
  hold integers; they are modelled as \<open>int\<close>, and a template literal \<open>${n}\<close> renders such a
  number in decimal, with a leading minus sign when it is negative.
\<close>

definition apostrophe :: char where
  "apostrophe = CHR 0x27"

definition digit :: "nat \<Rightarrow> char" where
  "digit d = ''0123456789'' ! d"

fun show_nat :: "nat \<Rightarrow> string" where
  "show_nat n = (if n < 10 then [digit n] else show_nat (n div 10) @ [digit (n mod 10)])"

declare show_nat.simps [simp del]

definition show_number :: "int \<Rightarrow> string" where
  "show_number i = (if i < 0 then CHR ''-'' # show_nat (nat (- i)) else show_nat (nat i))"

text \<open>\<open>Array.prototype.join\<close>: the separator goes between consecutive elements only.\<close>

fun join :: "string \<Rightarrow> string list \<Rightarrow> string" where
  "join sep [] = []"
| "join sep [x] = x"
| "join sep (x # y # ys) = x @ sep @ join sep (y # ys)"

text \<open>
  \<open>const esc = (v: string) => v.replace(/'/g, "''")\<close> (httpfs.ts, lines 132 and 206):
  every apostrophe of the value is replaced by two, every other character is kept.
\<close>

fun esc :: "string \<Rightarrow> string" where
  "esc [] = []"
| "esc (c # cs) = (if c = apostrophe then apostrophe # apostrophe # esc cs else c # esc cs)"

section \<open>httpfs.ts: the paged result fetcher\<close>

text \<open>
  \<open>queryParquetPaged(parquetUrl, pageIndex, pageSize, opts?)\<close>. The optional \<open>opts\<close> and each
  of its optional members are options; an empty string and an empty array are falsy, as
  the conditional expressions of lines 53 to 55 have it.
\<close>

record paged_opts =
  opt_where :: "string option"
  opt_orderBy :: "string option"
  opt_columns :: "string list option"

definition paged_projection :: "paged_opts option \<Rightarrow> string" where
  "paged_projection opts =
     (case opts of
        None \<Rightarrow> ''*''
      | Some os \<Rightarrow>
          (case opt_columns os of
             None \<Rightarrow> ''*''
           | Some cs \<Rightarrow> if length cs = 0 then ''*'' else join '', '' cs))"

definition paged_where :: "paged_opts option \<Rightarrow> string" where
  "paged_where opts =
     (case opts of
        None \<Rightarrow> []
      | Some os \<Rightarrow>
          (case opt_where os of
             None \<Rightarrow> []
           | Some w \<Rightarrow> if w = [] then [] else ''WHERE '' @ w))"

definition paged_order :: "paged_opts option \<Rightarrow> string" where
  "paged_order opts =
     (case opts of
        None \<Rightarrow> []
      | Some os \<Rightarrow>
          (case opt_orderBy os of
             None \<Rightarrow> []
           | Some ob \<Rightarrow> if ob = [] then [] else ''ORDER BY '' @ ob))"

text \<open>Line 56: \<open>const offset = pageIndex * pageSize\<close>.\<close>

definition paged_offset :: "int \<Rightarrow> int \<Rightarrow> int" where
  "paged_offset pageIndex pageSize = pageIndex * pageSize"

text \<open>Line 59, the data query, and line 60, the count query, over the view \<open>v\<close>.\<close>

definition paged_data_sql :: "int \<Rightarrow> int \<Rightarrow> paged_opts option \<Rightarrow> string" where
  "paged_data_sql pageIndex pageSize opts =
     ''SELECT '' @ paged_projection opts @ '' FROM v '' @ paged_where opts @ '' ''
       @ paged_order opts @ '' LIMIT '' @ show_number pageSize
       @ '' OFFSET '' @ show_number (paged_offset pageIndex pageSize)"

definition paged_count_sql :: "paged_opts option \<Rightarrow> string" where
  "paged_count_sql opts = ''SELECT COUNT(*) AS c FROM v '' @ paged_where opts"

text \<open>
  The three statements \<open>queryParquetPaged\<close> sends to its connection, in order
  (lines 58 to 60).
\<close>

definition queryParquetPaged :: "int \<Rightarrow> int \<Rightarrow> paged_opts option \<Rightarrow> string list" where
  "queryParquetPaged pageIndex pageSize opts =
     [''CREATE OR REPLACE VIEW v AS SELECT * FROM parquet_scan('current.parquet')'',
      paged_data_sql pageIndex pageSize opts,
      paged_count_sql opts]"

section \<open>httpfs.ts: the two dimension-to-column mappings\<close>

text \<open>
  \<open>type EntityType = 'contractor' | 'area' | 'organization' | 'category'\<close>
  (DataExplorer.tsx, line 5), and the string each value is at run time.
\<close>

datatype EntityType = contractor | area | organization | category

fun dim_name :: "EntityType \<Rightarrow> string" where
  "dim_name contractor = ''contractor''"
| "dim_name area = ''area''"
| "dim_name organization = ''organization''"
| "dim_name category = ''category''"

text \<open>The \<open>dimToCol\<close> of \<open>queryTopRelated\<close> (lines 104 to 112): a switch on the string.\<close>

definition dimToCol_related :: "string \<Rightarrow> string" where
  "dimToCol_related d =
     (if d = ''contractor'' then ''contractor_name''
      else if d = ''area'' then ''area_of_delivery''
      else if d = ''organization'' then ''organization_name''
      else if d = ''category'' then ''business_category''
      else ''contractor_name'')"

text \<open>The \<open>dimToCol\<close> of \<open>queryContractsByEntity\<close> (lines 177 to 189).\<close>

definition dimToCol_contracts :: "string \<Rightarrow> string" where
  "dimToCol_contracts d =
     (if d = ''contractor_name'' then ''contractor_name''
      else if d = ''area_of_delivery'' then ''area_of_delivery''
      else if d = ''organization_name'' then ''organization_name''
      else if d = ''business_category'' then ''business_category''
      else if d = ''contractor'' then ''contractor_name''
      else if d = ''area'' then ''area_of_delivery''
      else if d = ''organization'' then ''organization_name''
      else if d = ''category'' then ''business_category''
      else d)"

text \<open>
  The fixed table of the specification's data model, written from its words:
  contractor to contractor_name, area to area_of_delivery, organization to
  organization_name, category to business_category.
\<close>

fun column_table :: "EntityType \<Rightarrow> string" where
  "column_table contractor = ''contractor_name''"
| "column_table area = ''area_of_delivery''"
| "column_table organization = ''organization_name''"
| "column_table category = ''business_category''"

section \<open>DataExplorer.tsx: paging of the top-level table\<close>

text \<open>Line 56: \<open>const pageSize = 10\<close>; lines 63 and 64, the page helpers.\<close>

definition pageSize :: int where
  "pageSize = 10"

definition getCurrentPage :: "int \<Rightarrow> int" where
  "getCurrentPage pageIndex = pageIndex div pageSize + 1"

definition getTotalPages :: "int \<Rightarrow> int" where
  "getTotalPages totalCount = - ((- totalCount) div pageSize)"

text \<open>
  The Previous and Next buttons of the top-level table (lines 2163 to 2167 and 2210 to
  2214) compute the new \<open>pageIndex\<close> and hand it to \<open>debouncedLoad\<close>, whose timer calls
  \<open>load(pi)\<close>; \<open>load\<close> (line 242) calls \<open>queryParquetPaged(parquetUrl, pi, pageSize, ...)\<close>.
  The filter and the order \<open>load\<close> builds from the name filter and the sort state are a
  parameter here; with an empty name filter and the initial sort they are
  \<open>contract_count > 0\<close> and \<open>total_contract_value DESC\<close>.
\<close>

definition main_previous_onClick :: "int \<Rightarrow> int" where
  "main_previous_onClick pageIndex = max 0 (pageIndex - pageSize)"

definition main_next_onClick :: "int \<Rightarrow> int" where
  "main_next_onClick pageIndex = pageIndex + pageSize"

definition load :: "int \<Rightarrow> paged_opts \<Rightarrow> string list" where
  "load pidx os = queryParquetPaged pidx pageSize (Some os)"

section \<open>httpfs.ts: the entity aggregation query\<close>

text \<open>
  The statement text \<open>queryTopRelated(sourceDim, sourceValue, targetDim, limit,
  factsParquetUrl)\<close> builds (lines 113, 114 and 133 to 148) and sends to its connection.
  The facts file is registered under the fixed logical name, so the text does not depend
  on \<open>factsParquetUrl\<close>.
\<close>

definition queryTopRelated_sql :: "EntityType \<Rightarrow> string \<Rightarrow> EntityType \<Rightarrow> int \<Rightarrow> string" where
  "queryTopRelated_sql sourceDim sourceValue targetDim limit =
     (let srcCol = dimToCol_related (dim_name sourceDim);
          tgtCol = dimToCol_related (dim_name targetDim)
      in ''\<newline>    CREATE OR REPLACE VIEW f AS SELECT * FROM parquet_scan('facts_related.parquet');''
         @ ''\<newline>    SELECT''
         @ ''\<newline>      '' @ tgtCol @ '' AS entity,''
         @ ''\<newline>      COUNT(*) AS contract_count,''
         @ ''\<newline>      SUM(total_contract_amount) AS total_contract_value,''
         @ ''\<newline>      AVG(total_contract_amount) AS average_contract_value,''
         @ ''\<newline>      MIN(award_date) AS first_contract_date,''
         @ ''\<newline>      MAX(award_date) AS last_contract_date''
         @ ''\<newline>    FROM f''
         @ ''\<newline>    WHERE '' @ srcCol @ '' = '' @ [apostrophe] @ esc sourceValue @ [apostrophe]
         @ ''\<newline>      AND '' @ tgtCol @ '' IS NOT NULL''
         @ ''\<newline>    GROUP BY 1''
         @ ''\<newline>    ORDER BY total_contract_value DESC''
         @ ''\<newline>    LIMIT '' @ show_number limit
         @ ''\<newline>  '')"

section \<open>httpfs.ts: the contract listing query\<close>

text \<open>
  \<open>filters: Array<{ dim: string; value: string }>\<close>. The field names carry a prefix
  because \<open>dim\<close> and \<open>value\<close> are taken in Isabelle.
\<close>

record filter_entry =
  filter_dim :: string
  filter_value :: string

text \<open>
  The columns \<open>PRAGMA table_info('facts_v')\<close> reports are collected in a set
  (lines 213 to 217); \<open>has\<close> asks whether a column is in it (line 219).
\<close>

definition has :: "string set \<Rightarrow> string \<Rightarrow> bool" where
  "has availableCols c = (c \<in> availableCols)"

text \<open>
  An entry of the select list is one of three shapes in lines 225 to 233: a column by its
  own name, a column under another name, or a literal under a name. \<open>render_item\<close> gives
  the text the source interpolates.
\<close>

datatype select_item =
    Column string
  | ColumnAs string string
  | LiteralAs string string

fun render_item :: "select_item \<Rightarrow> string" where
  "render_item (Column c) = c"
| "render_item (ColumnAs c a) = c @ '' AS '' @ a"
| "render_item (LiteralAs l a) = l @ '' AS '' @ a"

text \<open>The key a select list entry has in the result, and the source column it reads.\<close>

fun output_key :: "select_item \<Rightarrow> string" where
  "output_key (Column c) = c"
| "output_key (ColumnAs c a) = a"
| "output_key (LiteralAs l a) = a"

fun item_columns :: "select_item \<Rightarrow> string list" where
  "item_columns (Column c) = [c]"
| "item_columns (ColumnAs c a) = [c]"
| "item_columns (LiteralAs l a) = []"

definition empty_literal :: string where
  "empty_literal = [apostrophe, apostrophe]"

definition select_list :: "string set \<Rightarrow> select_item list" where
  "select_list availableCols =
     [if has availableCols ''award_date'' then Column ''award_date''
      else LiteralAs ''NULL'' ''award_date'',
      if has availableCols ''contractor_name'' then Column ''contractor_name''
      else LiteralAs empty_literal ''contractor_name'',
      if has availableCols ''business_category'' then Column ''business_category''
      else LiteralAs empty_literal ''business_category'',
      if has availableCols ''organization_name'' then Column ''organization_name''
      else LiteralAs empty_literal ''organization_name'',
      if has availableCols ''area_of_delivery'' then Column ''area_of_delivery''
      else LiteralAs empty_literal ''area_of_delivery'',
      if has availableCols ''total_contract_amount''
      then ColumnAs ''total_contract_amount'' ''contract_value''
      else LiteralAs ''0'' ''contract_value'',
      if has availableCols ''award_title'' then Column ''award_title''
      else LiteralAs empty_literal ''award_title'',
      if has availableCols ''notice_title'' then Column ''notice_title''
      else LiteralAs empty_literal ''notice_title'',
      if has availableCols ''contract_no'' then Column ''contract_no''
      else LiteralAs empty_literal ''contract_no'']"

text \<open>Line 220: the order clause, with its default when \<open>orderBy\<close> is missing or empty.\<close>

definition orderClause :: "string option \<Rightarrow> string" where
  "orderClause orderBy =
     (case orderBy of
        None \<Rightarrow> ''ORDER BY award_date DESC''
      | Some ob \<Rightarrow> if ob = [] then ''ORDER BY award_date DESC'' else ''ORDER BY '' @ ob)"

text \<open>Lines 221 and 222: one predicate per filter, joined by \<open>AND\<close>.\<close>

definition whereClause :: "filter_entry \<Rightarrow> string" where
  "whereClause f =
     dimToCol_contracts (filter_dim f) @ '' = '' @ [apostrophe] @ esc (filter_value f)
       @ [apostrophe]"

definition whereClauses :: "filter_entry list \<Rightarrow> string list" where
  "whereClauses filters = map whereClause filters"

definition whereCombined :: "filter_entry list \<Rightarrow> string" where
  "whereCombined filters =
     (if length (whereClauses filters) = 0 then []
      else ''WHERE '' @ join '' AND '' (whereClauses filters))"

text \<open>The columns of the facts view that the predicates of the filter list read.\<close>

definition where_columns :: "filter_entry list \<Rightarrow> string list" where
  "where_columns filters = map (\<lambda>f. dimToCol_contracts (filter_dim f)) filters"

text \<open>
  Line 207: \<open>const offset = pageIndex\<close>, the caller's value is the item offset. Lines 223
  to 239: the listing statement and the count statement.
\<close>

definition contracts_offset :: "int \<Rightarrow> int" where
  "contracts_offset pageIndex = pageIndex"

definition selectSql :: "string set \<Rightarrow> filter_entry list \<Rightarrow> int \<Rightarrow> int \<Rightarrow> string option \<Rightarrow> string" where
  "selectSql availableCols filters pageIndex pageSz orderBy =
     ''\<newline>    SELECT \<newline>      ''
     @ join '',\<newline>      '' (map render_item (select_list availableCols))
     @ ''\<newline>    FROM facts_v''
     @ ''\<newline>    '' @ whereCombined filters
     @ ''\<newline>    '' @ orderClause orderBy
     @ ''\<newline>    LIMIT '' @ show_number pageSz
     @ '' OFFSET '' @ show_number (contracts_offset pageIndex)
     @ ''\<newline>  ''"

definition countSql :: "filter_entry list \<Rightarrow> string" where
  "countSql filters = ''SELECT COUNT(*) AS c FROM facts_v '' @ whereCombined filters"

text \<open>
  The statements \<open>queryContractsByEntity(filters, pageIndex, pageSize, orderBy, url)\<close> sends
  to its connection, in order (lines 210, 213, 241 and 242); \<open>availableCols\<close> is what the
  engine answers to the second. A statement the engine rejects makes its \<open>await\<close> throw,
  and the function has no handler of its own: the rejection reaches the caller.
\<close>

definition queryContractsByEntity :: "string set \<Rightarrow> filter_entry list \<Rightarrow> int \<Rightarrow> int \<Rightarrow> string option \<Rightarrow> string list" where
  "queryContractsByEntity availableCols filters pageIndex pageSz orderBy =
     [''CREATE OR REPLACE VIEW facts_v AS SELECT * FROM parquet_scan('facts_contracts.parquet')'',
      ''PRAGMA table_info('facts_v')'',
      selectSql availableCols filters pageIndex pageSz orderBy,
      countSql filters]"

subsection \<open>Row normalisation\<close>

text \<open>
  The engine returns a row as a record with named fields or as a positional array; lines
  246 to 257 (and 64 to 78, 152 to 163) rebuild it as an object keyed by the result's field
  names. An object is an association list in insertion order; assigning to a key that
  is there keeps its place.
\<close>

datatype jsval = Undefined | Null | Str string | Num int

type_synonym row = "(string \<times> jsval) list"

datatype engine_row = Named row | Positional "jsval list" | NoRow

fun obj_set :: "'k \<Rightarrow> 'v \<Rightarrow> ('k \<times> 'v) list \<Rightarrow> ('k \<times> 'v) list" where
  "obj_set k v [] = [(k, v)]"
| "obj_set k v ((k', v') # kvs) =
     (if k' = k then (k, v) # kvs else (k', v') # obj_set k v kvs)"

fun obj_get :: "row \<Rightarrow> string \<Rightarrow> jsval" where
  "obj_get [] k = Undefined"
| "obj_get ((k', v) # kvs) k = (if k' = k then v else obj_get kvs k)"

definition arr_get :: "jsval list \<Rightarrow> nat \<Rightarrow> jsval" where
  "arr_get a idx = (if idx < length a then a ! idx else Undefined)"

fun assign_fields :: "(string \<times> jsval) list \<Rightarrow> row \<Rightarrow> row" where
  "assign_fields [] obj = obj"
| "assign_fields ((name, v) # rest) obj = assign_fields rest (obj_set name v obj)"

definition normalize_row :: "string list \<Rightarrow> engine_row \<Rightarrow> row" where
  "normalize_row fieldNames r =
     (case r of
        Named ro \<Rightarrow> assign_fields (map (\<lambda>name. (name, obj_get ro name)) fieldNames) []
      | Positional a \<Rightarrow>
          assign_fields (map (\<lambda>(idx, name). (name, arr_get a idx)) (enumerate 0 fieldNames)) []
      | NoRow \<Rightarrow> assign_fields (map (\<lambda>name. (name, Undefined)) fieldNames) [])"

section \<open>DataExplorer.tsx: the drill modal\<close>

text \<open>
  A tab of the modal (lines 10 to 24): the rows, the loading flag and the optional error;
  the contracts tab has the total count and the page offset \<open>pageIndex\<close> as well.
  Every place that builds a \<open>DrillModalData\<close> gives it a contracts tab, so that member
  is not optional here. The entity tabs are the object's keys in insertion order.
\<close>

record entity_tab =
  data :: "row list"
  loading :: bool
  error :: "string option"

record contracts_tab = entity_tab +
  totalCount :: int
  pageIndex :: int

record modal_tabs =
  entity_tabs :: "(EntityType \<times> entity_tab) list"
  contracts :: contracts_tab

datatype DrillModalData =
  DrillModalData (srcDim: EntityType) (srcVal: string) (tabs: modal_tabs)
    (parentModal: "DrillModalData option")

datatype tab_key = EntityTab EntityType | ContractsTab

datatype dataset = contractors | areas | organizations | categories

datatype timeRange = all_time | yearly | quarterly

datatype sort_dir = ASC | DESC

fun dir_name :: "sort_dir \<Rightarrow> string" where
  "dir_name ASC = ''ASC''"
| "dir_name DESC = ''DESC''"

text \<open>
  A query that has been sent and not answered yet, with the tab its answer is written to.
  The answer of a query is its rows and total count, or the error it threw.
\<close>

datatype query =
    QueryTopRelated EntityType string EntityType int string
  | QueryContractsByEntity "filter_entry list" int int string string

datatype continuation =
    DrillRelated EntityType
  | DrillContracts
  | DebouncedContracts int

record js_error =
  message :: string
  as_string :: string

datatype outcome = Resolved "row list" int | Rejected js_error

text \<open>\<open>String(e?.message || e)\<close> and \<open>String(e)\<close>.\<close>

definition message_or_string :: "js_error \<Rightarrow> string" where
  "message_or_string e = (if message e = [] then as_string e else message e)"

text \<open>The part of the component's state that the drill modal reads and writes.\<close>

record explorer =
  dataset_sel :: dataset
  timeRange_sel :: timeRange
  selectedYear :: int
  selectedQuarter :: int
  contractsSortBy :: string
  contractsSortDir :: sort_dir
  modalData :: "DrillModalData option"
  activeTab :: "tab_key option"
  inflight :: "(query \<times> continuation) list"

text \<open>Lines 211 to 222 and 229 to 230.\<close>

definition getFactsUrl :: "explorer \<Rightarrow> string" where
  "getFactsUrl s =
     (case timeRange_sel s of
        all_time \<Rightarrow> ''/parquet/facts_awards_all_time.parquet''
      | yearly \<Rightarrow>
          ''/parquet/yearly/facts_awards_year_'' @ show_number (selectedYear s) @ ''.parquet''
      | quarterly \<Rightarrow>
          ''/parquet/quarterly/facts_awards_year_'' @ show_number (selectedYear s) @ ''_q''
            @ show_number (selectedQuarter s) @ ''.parquet'')"

fun srcDimForDataset :: "dataset \<Rightarrow> EntityType" where
  "srcDimForDataset contractors = contractor"
| "srcDimForDataset areas = area"
| "srcDimForDataset organizations = organization"
| "srcDimForDataset categories = category"

subsection \<open>Opening a modal\<close>

definition allEntityTypes :: "EntityType list" where
  "allEntityTypes = [contractor, area, organization, category]"

definition otherEntityTypes :: "EntityType \<Rightarrow> EntityType list" where
  "otherEntityTypes d = filter (\<lambda>t. t \<noteq> d) allEntityTypes"

definition loading_tab :: entity_tab where
  "loading_tab = \<lparr>data = [], loading = True, error = None\<rparr>"

definition loading_contracts :: contracts_tab where
  "loading_contracts = \<lparr>data = [], loading = True, error = None, totalCount = 0, pageIndex = 0\<rparr>"

text \<open>
  Lines 362 to 382 and 463 to 486: the contracts tab first, then one loading tab for each
  other entity type.
\<close>

definition initial_tabs :: "EntityType \<Rightarrow> modal_tabs" where
  "initial_tabs d =
     \<lparr>entity_tabs = map (\<lambda>t. (t, loading_tab)) (otherEntityTypes d),
      contracts = loading_contracts\<rparr>"

text \<open>
  The loops of lines 492 to 497, 866 to 871, 954 to 959 and 988 to 993: walk the parent
  chain from the current modal, putting each context in front of the list.
\<close>

fun breadcrumb_walk :: "DrillModalData option \<Rightarrow> filter_entry list \<Rightarrow> filter_entry list" where
  "breadcrumb_walk None acc = acc"
| "breadcrumb_walk (Some (DrillModalData d v t p)) acc =
     breadcrumb_walk p (\<lparr>filter_dim = dim_name d, filter_value = v\<rparr> # acc)"

definition breadcrumbFilters :: "DrillModalData \<Rightarrow> filter_entry list" where
  "breadcrumbFilters m = breadcrumb_walk (Some m) []"

text \<open>The queries a drill launches for the tabs of the other entity types (limit 10).\<close>

definition related_queries :: "EntityType \<Rightarrow> string \<Rightarrow> string \<Rightarrow> (query \<times> continuation) list" where
  "related_queries d v url =
     map (\<lambda>t. (QueryTopRelated d v t 10 url, DrillRelated t)) (otherEntityTypes d)"

text \<open>
  \<open>onDrill(entityVal, fromModal = false, parentModal?)\<close>, lines 355 to 458: the modal is
  set to the loading state, the contracts tab is made active, and the queries are launched
  one after the other without waiting.
\<close>

definition onDrill :: "string \<Rightarrow> bool \<Rightarrow> DrillModalData option \<Rightarrow> explorer \<Rightarrow> explorer" where
  "onDrill entityVal fromModal parent s =
     (let d = (if fromModal then (case parent of None \<Rightarrow> contractor | Some pm \<Rightarrow> srcDim pm)
               else srcDimForDataset (dataset_sel s));
          initialModalData = DrillModalData d entityVal (initial_tabs d) parent
      in s\<lparr>modalData := Some initialModalData,
            activeTab := Some ContractsTab,
            inflight := inflight s @ related_queries d entityVal (getFactsUrl s)
              @ [(QueryContractsByEntity
                    [\<lparr>filter_dim = dim_name d, filter_value = entityVal\<rparr>]
                    0 20 ''award_date DESC'' (getFactsUrl s), DrillContracts)]\<rparr>)"

text \<open>\<open>onModalDrill(entityVal, entityType)\<close>, lines 460 to 571; nothing when no modal is open.\<close>

definition onModalDrill :: "string \<Rightarrow> EntityType \<Rightarrow> explorer \<Rightarrow> explorer" where
  "onModalDrill entityVal entityType s =
     (case modalData s of
        None \<Rightarrow> s
      | Some cur \<Rightarrow>
          (let newModalData = DrillModalData entityType entityVal (initial_tabs entityType) (Some cur)
           in s\<lparr>modalData := Some newModalData,
                 activeTab := Some ContractsTab,
                 inflight := inflight s @ related_queries entityType entityVal (getFactsUrl s)
                   @ [(QueryContractsByEntity (breadcrumbFilters newModalData)
                         0 20 ''award_date DESC'' (getFactsUrl s), DrillContracts)]\<rparr>))"

text \<open>
  \<open>goBack\<close>, lines 573 to 582. The first key of the parent's tabs other than the contracts
  key is the first entity tab.
\<close>

definition firstTab :: "modal_tabs \<Rightarrow> tab_key" where
  "firstTab t = (case entity_tabs t of [] \<Rightarrow> ContractsTab | (k, v) # rest \<Rightarrow> EntityTab k)"

definition goBack :: "explorer \<Rightarrow> explorer" where
  "goBack s =
     (case modalData s of
        None \<Rightarrow> s\<lparr>modalData := None, activeTab := None\<rparr>
      | Some m \<Rightarrow>
          (case parentModal m of
             None \<Rightarrow> s\<lparr>modalData := None, activeTab := None\<rparr>
           | Some pm \<Rightarrow> s\<lparr>modalData := Some pm, activeTab := Some (firstTab (tabs pm))\<rparr>))"

text \<open>The close button, line 792.\<close>

definition closeModal :: "explorer \<Rightarrow> explorer" where
  "closeModal s = s\<lparr>modalData := None, activeTab := None\<rparr>"

subsection \<open>Writing an answer\<close>

text \<open>
  Every answer is written with \<open>setModalData(prev => prev ? {...prev, tabs: {...prev.tabs,
  [key]: ...}} : null)\<close>: the modal that is open when the answer arrives gets the tab, and
  nothing is written when none is open.
\<close>

fun with_tabs :: "(modal_tabs \<Rightarrow> modal_tabs) \<Rightarrow> DrillModalData \<Rightarrow> DrillModalData" where
  "with_tabs f (DrillModalData d v t p) = DrillModalData d v (f t) p"

definition set_entity_tab :: "EntityType \<Rightarrow> entity_tab \<Rightarrow> DrillModalData option \<Rightarrow> DrillModalData option" where
  "set_entity_tab k tab prev =
     map_option (with_tabs (\<lambda>t. t\<lparr>entity_tabs := obj_set k tab (entity_tabs t)\<rparr>)) prev"

definition set_contracts_tab :: "(contracts_tab \<Rightarrow> contracts_tab) \<Rightarrow> DrillModalData option \<Rightarrow> DrillModalData option" where
  "set_contracts_tab f prev =
     map_option (with_tabs (\<lambda>t. t\<lparr>contracts := f (contracts t)\<rparr>)) prev"

text \<open>
  The handlers of lines 393 to 414 and 505 to 526 (a related tab), 427 to 452 and 539 to 564
  (the contracts tab of a drill), and 326 to 350 (the contracts tab of a re-sort or re-page).
\<close>

fun write_answer :: "continuation \<Rightarrow> outcome \<Rightarrow> DrillModalData option \<Rightarrow> DrillModalData option" where
  "write_answer (DrillRelated k) (Resolved rows cnt) prev =
     set_entity_tab k \<lparr>data = rows, loading = False, error = None\<rparr> prev"
| "write_answer (DrillRelated k) (Rejected e) prev =
     set_entity_tab k \<lparr>data = [], loading = False, error = Some (message_or_string e)\<rparr> prev"
| "write_answer DrillContracts (Resolved rows cnt) prev =
     set_contracts_tab
       (\<lambda>c. \<lparr>data = rows, loading = False, error = None, totalCount = cnt, pageIndex = 0\<rparr>) prev"
| "write_answer DrillContracts (Rejected e) prev =
     set_contracts_tab
       (\<lambda>c. \<lparr>data = [], loading = False, error = Some (message_or_string e),
             totalCount = 0, pageIndex = 0\<rparr>) prev"
| "write_answer (DebouncedContracts offset) (Resolved rows cnt) prev =
     set_contracts_tab
       (\<lambda>c. \<lparr>data = rows, loading = False, error = None, totalCount = cnt,
             pageIndex = offset\<rparr>) prev"
| "write_answer (DebouncedContracts offset) (Rejected e) prev =
     set_contracts_tab (\<lambda>c. c\<lparr>loading := False, error := Some (as_string e)\<rparr>) prev"

text \<open>
  The answer of the \<open>i\<close>-th query in flight arrives: its handler runs and the query is no
  longer in flight. The other queries stay in flight.
\<close>

definition settle :: "nat \<Rightarrow> outcome \<Rightarrow> explorer \<Rightarrow> explorer" where
  "settle i out s =
     (if i < length (inflight s)
      then s\<lparr>modalData := write_answer (snd (inflight s ! i)) out (modalData s),
             inflight := take i (inflight s) @ drop (Suc i) (inflight s)\<rparr>
      else s)"

subsection \<open>Paging and sorting the contracts tab\<close>

text \<open>Lines 67 and 68: the page helpers of the modal, with the page size 20.\<close>

definition getModalCurrentPage :: "int \<Rightarrow> int" where
  "getModalCurrentPage pidx = pidx div 20 + 1"

definition getModalTotalPages :: "int \<Rightarrow> int" where
  "getModalTotalPages cnt = - ((- cnt) div 20)"

text \<open>
  The parameters a control of the contracts tab hands to
  \<open>debouncedModalContractsLoad(breadcrumbFilters, offset, orderBy)\<close>.
\<close>

type_synonym modal_load = "filter_entry list \<times> int \<times> string"

definition contracts_order :: "explorer \<Rightarrow> string" where
  "contracts_order s =
     (if contractsSortBy s = [] then ''award_date DESC''
      else contractsSortBy s @ '' '' @ dir_name (contractsSortDir s))"

text \<open>
  The Previous button of the contracts tab, lines 947 to 967: its \<open>disabled\<close> attribute and
  what a click schedules, if anything.
\<close>

definition modal_previous_disabled :: "DrillModalData \<Rightarrow> bool" where
  "modal_previous_disabled m = (getModalCurrentPage (pageIndex (contracts (tabs m))) = 0)"

definition modal_previous_onClick :: "explorer \<Rightarrow> modal_load option" where
  "modal_previous_onClick s =
     (case modalData s of
        None \<Rightarrow> None
      | Some m \<Rightarrow>
          (let currentPage = getCurrentPage (pageIndex (contracts (tabs m)))
           in if currentPage > 0
              then Some (breadcrumbFilters m, pageIndex (contracts (tabs m)) - 20,
                         contracts_order s)
              else None))"

text \<open>The Next button, lines 980 to 1001.\<close>

definition modal_next_disabled :: "DrillModalData \<Rightarrow> bool" where
  "modal_next_disabled m =
     (getModalCurrentPage (pageIndex (contracts (tabs m)))
        \<ge> getModalTotalPages (totalCount (contracts (tabs m))) - 1)"

definition modal_next_onClick :: "explorer \<Rightarrow> modal_load option" where
  "modal_next_onClick s =
     (case modalData s of
        None \<Rightarrow> None
      | Some m \<Rightarrow>
          (let currentPage = getCurrentPage (pageIndex (contracts (tabs m)));
               totalPages = getTotalPages (totalCount (contracts (tabs m)))
           in if currentPage < totalPages - 1
              then Some (breadcrumbFilters m, pageIndex (contracts (tabs m)) + 20,
                         contracts_order s)
              else None))"

text \<open>The initial values of the state hooks, lines 33 to 43.\<close>

definition initial_explorer :: explorer where
  "initial_explorer =
     \<lparr>dataset_sel = contractors, timeRange_sel = all_time, selectedYear = 2021,
      selectedQuarter = 4, contractsSortBy = ''award_date'', contractsSortDir = DESC,
      modalData = None, activeTab = None, inflight = []\<rparr>"

text \<open>
  \<open>debouncedModalContractsLoad\<close> is memoised with no dependencies (line 353), so its timer
  callback keeps calling the \<open>getFactsUrl\<close> of the first render, whose state is the
  initial one, whatever time range is selected later.
\<close>

definition first_render_facts_url :: string where
  "first_render_facts_url = getFactsUrl initial_explorer"

text \<open>
  The timer callback of \<open>debouncedModalContractsLoad\<close>, lines 304 to 325: the contracts tab
  is marked loading and \<open>queryContractsByEntity(breadcrumbFilters, offset, 20, orderBy,
  getFactsUrl())\<close> is sent.
\<close>

definition modal_contracts_dispatch :: "modal_load \<Rightarrow> explorer \<Rightarrow> explorer" where
  "modal_contracts_dispatch p s =
     (case p of (breadcrumbs, offset, orderBy) \<Rightarrow>
        s\<lparr>modalData := set_contracts_tab (\<lambda>c. c\<lparr>loading := True\<rparr>) (modalData s),
          inflight := inflight s
            @ [(QueryContractsByEntity breadcrumbs offset 20 orderBy first_render_facts_url,
                DebouncedContracts offset)]\<rparr>)"

text \<open>The statements a query in flight has its function send to the engine.\<close>

fun query_statements :: "string set \<Rightarrow> query \<Rightarrow> string list" where
  "query_statements availableCols (QueryTopRelated sd sv td limit url) =
     [queryTopRelated_sql sd sv td limit]"
| "query_statements availableCols (QueryContractsByEntity fs pidx psz ob url) =
     queryContractsByEntity availableCols fs pidx psz (Some ob)"

section \<open>DataExplorer.tsx: the debounce\<close>

text \<open>
  \<open>debouncedLoad\<close> (lines 272 to 289) and \<open>debouncedModalContractsLoad\<close> (lines 293 to 353)
  have one shape: a ref holding the handle of the last timer, cleared before a new timer
  is set for 1000 ms; the timer's callback runs the load with the parameters of the call
  that set it. Time is counted in milliseconds. \<open>setTimeout\<close> appends a timer with a fresh
  handle, \<open>clearTimeout\<close> removes the timers with the given handle, and a timer that is
  still there when its time has come runs its callback once and is gone. A handle is
  truthy. \<open>dispatched\<close> lists the parameters of the loads that have run, oldest first.
  The flag \<open>debouncing\<close> is the one \<open>debouncedLoad\<close> sets and its callback resets; the
  modal's function has no such flag, and nothing below depends on it.
\<close>

record 'p timers =
  now :: nat
  next_handle :: nat
  armed :: "(nat \<times> nat \<times> 'p) list"
  timeoutRef :: "nat option"
  debouncing :: bool
  dispatched :: "'p list"

definition timers_init :: "'p timers" where
  "timers_init =
     \<lparr>now = 0, next_handle = 1, armed = [], timeoutRef = None, debouncing = False,
      dispatched = []\<rparr>"

definition setTimeout :: "'p \<Rightarrow> nat \<Rightarrow> 'p timers \<Rightarrow> nat \<times> 'p timers" where
  "setTimeout p delay s =
     (next_handle s,
      s\<lparr>next_handle := Suc (next_handle s),
        armed := armed s @ [(next_handle s, now s + delay, p)]\<rparr>)"

definition clearTimeout :: "nat \<Rightarrow> 'p timers \<Rightarrow> 'p timers" where
  "clearTimeout h s = s\<lparr>armed := filter (\<lambda>t. fst t \<noteq> h) (armed s)\<rparr>"

definition clear_ref :: "'p timers \<Rightarrow> 'p timers" where
  "clear_ref s = (case timeoutRef s of None \<Rightarrow> s | Some h \<Rightarrow> clearTimeout h s)"

definition debounced :: "'p \<Rightarrow> 'p timers \<Rightarrow> 'p timers" where
  "debounced p s =
     (let s1 = clear_ref s;
          s2 = s1\<lparr>debouncing := True\<rparr>;
          (h, s3) = setTimeout p 1000 s2
      in s3\<lparr>timeoutRef := Some h\<rparr>)"

text \<open>
  \<open>d\<close> milliseconds pass without a call: the timers that are due by then fire in the order
  of their times.
\<close>

definition is_due :: "nat \<Rightarrow> nat \<times> nat \<times> 'p \<Rightarrow> bool" where
  "is_due t tm = (fst (snd tm) \<le> t)"

definition elapse :: "nat \<Rightarrow> 'p timers \<Rightarrow> 'p timers" where
  "elapse d s =
     (let t = now s + d;
          due = sort_key (\<lambda>tm. fst (snd tm)) (filter (is_due t) (armed s))
      in s\<lparr>now := t,
           armed := filter (\<lambda>tm. \<not> is_due t tm) (armed s),
           debouncing := (if due = [] then debouncing s else False),
           dispatched := dispatched s @ map (\<lambda>tm. snd (snd tm)) due\<rparr>)"

text \<open>The cleanup of lines 636 to 645, for one of the two refs.\<close>

definition unmount_cleanup :: "'p timers \<Rightarrow> 'p timers" where
  "unmount_cleanup s = clear_ref s"

text \<open>
  A burst: each call of the debounced function is followed by the time that passes before
  the next call.
\<close>

fun burst :: "('p \<times> nat) list \<Rightarrow> 'p timers \<Rightarrow> 'p timers" where
  "burst [] s = s"
| "burst ((p, gap) # rest) s = burst rest (elapse gap (debounced p s))"

definition gaps_within_window :: "('p \<times> nat) list \<Rightarrow> bool" where
  "gaps_within_window calls = list_all (\<lambda>c. snd c < 1000) calls"

text \<open>
  Every timer that is set is the one the ref holds. This is so at the start and after
  every call and every lapse of time.
\<close>

definition only_ref_armed :: "'p timers \<Rightarrow> bool" where
  "only_ref_armed s = list_all (\<lambda>tm. timeoutRef s = Some (fst tm)) (armed s)"

section \<open>The statement of the entity aggregation query, read as a query\<close>

text \<open>
  \<open>queryTopRelated\<close> hands its statement to the engine, and the rows it returns are the
  engine's answer. To say what these rows are, the statement is read as a value (the
  group column, the aggregates, the conditions, the order and the limit), \<open>render_select\<close>
  writes such a value as the text of the source's template, and \<open>run_select\<close> gives the
  rows of such a value over the facts view as a list of facts.

  The engine computes sums and averages in its own arithmetic (binary floating point for
  a floating-point column), so the measure type \<open>'m\<close> and the two operations are
  parameters; only the order of \<open>'m\<close> is used. Dates are any linearly ordered type \<open>'d\<close>.
  A null is \<open>None\<close>.
\<close>

datatype ('m, 'd) sql_value = Text string | Count nat | Number 'm | Date 'd

type_synonym ('m, 'd) cell = "('m, 'd) sql_value option"

type_synonym ('m, 'd) result_row = "(string \<times> ('m, 'd) cell) list"

record ('m, 'd) fact =
  contractor_name :: "string option"
  area_of_delivery :: "string option"
  organization_name :: "string option"
  business_category :: "string option"
  total_contract_amount :: "'m option"
  award_date :: "'d option"

record 'm arithmetic =
  agg_sum :: "'m list \<Rightarrow> 'm"
  agg_avg :: "'m list \<Rightarrow> 'm"

text \<open>The columns of the facts view by name, each with the type of its values.\<close>

definition text_column :: "string \<Rightarrow> (('m, 'd) fact \<Rightarrow> string option) option" where
  "text_column c =
     (if c = ''contractor_name'' then Some contractor_name
      else if c = ''area_of_delivery'' then Some area_of_delivery
      else if c = ''organization_name'' then Some organization_name
      else if c = ''business_category'' then Some business_category
      else None)"

definition number_column :: "string \<Rightarrow> (('m, 'd) fact \<Rightarrow> 'm option) option" where
  "number_column c = (if c = ''total_contract_amount'' then Some total_contract_amount else None)"

definition date_column :: "string \<Rightarrow> (('m, 'd) fact \<Rightarrow> 'd option) option" where
  "date_column c = (if c = ''award_date'' then Some award_date else None)"

subsection \<open>The statement as a value and as text\<close>

datatype aggregate_fn =
    Count_star
  | Sum_of string
  | Avg_of string
  | Min_of string
  | Max_of string

datatype condition = Equals string string | Is_not_null string

record select_stmt =
  group_column :: string
  group_alias :: string
  aggregates :: "(aggregate_fn \<times> string) list"
  from_view :: string
  conditions :: "condition list"
  order_desc :: string
  row_limit :: int

fun render_aggregate :: "aggregate_fn \<Rightarrow> string" where
  "render_aggregate Count_star = ''COUNT(*)''"
| "render_aggregate (Sum_of c) = ''SUM('' @ c @ '')''"
| "render_aggregate (Avg_of c) = ''AVG('' @ c @ '')''"
| "render_aggregate (Min_of c) = ''MIN('' @ c @ '')''"
| "render_aggregate (Max_of c) = ''MAX('' @ c @ '')''"

fun render_condition :: "condition \<Rightarrow> string" where
  "render_condition (Equals c v) = c @ '' = '' @ [apostrophe] @ esc v @ [apostrophe]"
| "render_condition (Is_not_null c) = c @ '' IS NOT NULL''"

definition render_select :: "select_stmt \<Rightarrow> string" where
  "render_select st =
     ''\<newline>    SELECT\<newline>      ''
     @ join '',\<newline>      ''
         ((group_column st @ '' AS '' @ group_alias st)
          # map (\<lambda>it. render_aggregate (fst it) @ '' AS '' @ snd it) (aggregates st))
     @ ''\<newline>    FROM '' @ from_view st
     @ ''\<newline>    WHERE '' @ join ''\<newline>      AND '' (map render_condition (conditions st))
     @ ''\<newline>    GROUP BY 1''
     @ ''\<newline>    ORDER BY '' @ order_desc st @ '' DESC''
     @ ''\<newline>    LIMIT '' @ show_number (row_limit st)
     @ ''\<newline>  ''"

definition create_view_text :: string where
  "create_view_text =
     ''\<newline>    CREATE OR REPLACE VIEW f AS SELECT * FROM parquet_scan('facts_related.parquet');''"

text \<open>The value whose text \<open>queryTopRelated\<close> builds (lines 113, 114 and 135 to 147).\<close>

definition topRelated_select :: "EntityType \<Rightarrow> string \<Rightarrow> EntityType \<Rightarrow> int \<Rightarrow> select_stmt" where
  "topRelated_select sourceDim sourceValue targetDim limit =
     \<lparr>group_column = dimToCol_related (dim_name targetDim),
      group_alias = ''entity'',
      aggregates =
        [(Count_star, ''contract_count''),
         (Sum_of ''total_contract_amount'', ''total_contract_value''),
         (Avg_of ''total_contract_amount'', ''average_contract_value''),
         (Min_of ''award_date'', ''first_contract_date''),
         (Max_of ''award_date'', ''last_contract_date'')],
      from_view = ''f'',
      conditions =
        [Equals (dimToCol_related (dim_name sourceDim)) sourceValue,
         Is_not_null (dimToCol_related (dim_name targetDim))],
      order_desc = ''total_contract_value'',
      row_limit = limit\<rparr>"

subsection \<open>The rows of a statement\<close>

text \<open>
  A statement that names a column the view does not have, or has a negative limit, is
  rejected. \<open>WHERE\<close> keeps the facts for which every condition is true (a null equals
  nothing). \<open>GROUP BY 1\<close> makes one group for each value of the group column among the
  kept facts. \<open>COUNT(*)\<close> counts the facts of a group; the other aggregates range over the
  non-null values of their column in the group and are null when there is none.
  \<open>ORDER BY ... DESC\<close> is read for a sum or an average: larger values first, nulls last
  (the engine's default). \<open>LIMIT\<close> keeps that many rows from the front. The order among
  rows with equal keys is the engine's choice; \<open>run_select\<close> fixes one.
\<close>

datatype sql_error = Unknown_column | Unsupported_order | Negative_limit

definition non_null :: "'a option list \<Rightarrow> 'a list" where
  "non_null vs = List.map_filter (\<lambda>v. v) vs"

definition sql_sum :: "'m arithmetic \<Rightarrow> 'm option list \<Rightarrow> 'm option" where
  "sql_sum ar vs = (case non_null vs of [] \<Rightarrow> None | x # xs \<Rightarrow> Some (agg_sum ar (x # xs)))"

definition sql_avg :: "'m arithmetic \<Rightarrow> 'm option list \<Rightarrow> 'm option" where
  "sql_avg ar vs = (case non_null vs of [] \<Rightarrow> None | x # xs \<Rightarrow> Some (agg_avg ar (x # xs)))"

definition sql_min :: "'d::linorder option list \<Rightarrow> 'd option" where
  "sql_min vs = (case non_null vs of [] \<Rightarrow> None | x # xs \<Rightarrow> Some (fold min xs x))"

definition sql_max :: "'d::linorder option list \<Rightarrow> 'd option" where
  "sql_max vs = (case non_null vs of [] \<Rightarrow> None | x # xs \<Rightarrow> Some (fold max xs x))"

fun bind_condition :: "condition \<Rightarrow> (('m, 'd) fact \<Rightarrow> bool) option" where
  "bind_condition (Equals c v) = map_option (\<lambda>sel f. sel f = Some v) (text_column c)"
| "bind_condition (Is_not_null c) =
     (case text_column c of
        Some sel \<Rightarrow> Some (\<lambda>f. sel f \<noteq> None)
      | None \<Rightarrow>
          (case number_column c of
             Some sel \<Rightarrow> Some (\<lambda>f. sel f \<noteq> None)
           | None \<Rightarrow> map_option (\<lambda>sel f. sel f \<noteq> None) (date_column c)))"

fun bind_aggregate :: "'m arithmetic \<Rightarrow> aggregate_fn \<Rightarrow> (('m, 'd::linorder) fact list \<Rightarrow> ('m, 'd) cell) option" where
  "bind_aggregate ar Count_star = Some (\<lambda>g. Some (Count (length g)))"
| "bind_aggregate ar (Sum_of c) =
     map_option (\<lambda>sel g. map_option Number (sql_sum ar (map sel g))) (number_column c)"
| "bind_aggregate ar (Avg_of c) =
     map_option (\<lambda>sel g. map_option Number (sql_avg ar (map sel g))) (number_column c)"
| "bind_aggregate ar (Min_of c) =
     map_option (\<lambda>sel g. map_option Date (sql_min (map sel g))) (date_column c)"
| "bind_aggregate ar (Max_of c) =
     map_option (\<lambda>sel g. map_option Date (sql_max (map sel g))) (date_column c)"

definition numeric_alias :: "select_stmt \<Rightarrow> string \<Rightarrow> bool" where
  "numeric_alias st a =
     (case map_of (map (\<lambda>it. (snd it, fst it)) (aggregates st)) a of
        Some (Sum_of c) \<Rightarrow> True
      | Some (Avg_of c) \<Rightarrow> True
      | _ \<Rightarrow> False)"

definition order_key :: "string \<Rightarrow> ('m, 'd) result_row \<Rightarrow> 'm option" where
  "order_key a r = (case map_of r a of Some (Some (Number x)) \<Rightarrow> Some x | _ \<Rightarrow> None)"

definition run_select :: "'m::linorder arithmetic \<Rightarrow> select_stmt \<Rightarrow> ('m, 'd::linorder) fact list \<Rightarrow> sql_error + ('m, 'd) result_row list" where
  "run_select ar st facts =
     (case text_column (group_column st) of
        None \<Rightarrow> Inl Unknown_column
      | Some key \<Rightarrow>
     (case those (map bind_condition (conditions st)) of
        None \<Rightarrow> Inl Unknown_column
      | Some preds \<Rightarrow>
     (case those (map (\<lambda>it. bind_aggregate ar (fst it)) (aggregates st)) of
        None \<Rightarrow> Inl Unknown_column
      | Some aggs \<Rightarrow>
          if \<not> numeric_alias st (order_desc st) then Inl Unsupported_order
          else if row_limit st < 0 then Inl Negative_limit
          else
            (let kept = filter (\<lambda>f. list_all (\<lambda>p. p f) preds) facts;
                 row = (\<lambda>k. (group_alias st, map_option Text k)
                             # zip (map snd (aggregates st))
                                 (map (\<lambda>a. a (filter (\<lambda>f. key f = k) kept)) aggs))
             in Inr (take (nat (row_limit st))
                       (rev (sort_key (order_key (order_desc st))
                               (map row (remdups (map key kept))))))))))"

subsection \<open>The specification's wording of the result\<close>

text \<open>
  The value of a fact in a dimension; the facts of the source value with a given target
  value; the distinct non-null target values among the facts of the source value.
\<close>

fun dimension_value :: "EntityType \<Rightarrow> ('m, 'd) fact \<Rightarrow> string option" where
  "dimension_value contractor f = contractor_name f"
| "dimension_value area f = area_of_delivery f"
| "dimension_value organization f = organization_name f"
| "dimension_value category f = business_category f"

definition present_values :: "'a option list \<Rightarrow> 'a list" where
  "present_values vs = concat (map (\<lambda>v. case v of None \<Rightarrow> [] | Some x \<Rightarrow> [x]) vs)"

definition related_facts :: "EntityType \<Rightarrow> string \<Rightarrow> EntityType \<Rightarrow> string \<Rightarrow> ('m, 'd) fact list \<Rightarrow> ('m, 'd) fact list" where
  "related_facts sd sv td k facts =
     filter (\<lambda>f. dimension_value sd f = Some sv \<and> dimension_value td f = Some k) facts"

definition related_entities :: "EntityType \<Rightarrow> string \<Rightarrow> EntityType \<Rightarrow> ('m, 'd) fact list \<Rightarrow> string set" where
  "related_entities sd sv td facts =
     set (present_values (map (dimension_value td)
            (filter (\<lambda>f. dimension_value sd f = Some sv) facts)))"

text \<open>
  The total of an entity: the engine's sum of the non-null amounts of its facts, null
  when there is none. The row of an entity: the entity, the number of its facts, the
  total, the engine's average of the same amounts, and the least and the greatest of the
  non-null award dates of its facts.
\<close>

definition expected_total :: "'m arithmetic \<Rightarrow> EntityType \<Rightarrow> string \<Rightarrow> EntityType \<Rightarrow> ('m, 'd) fact list \<Rightarrow> string \<Rightarrow> 'm option" where
  "expected_total ar sd sv td facts k =
     (let amounts = present_values (map total_contract_amount (related_facts sd sv td k facts))
      in if amounts = [] then None else Some (agg_sum ar amounts))"

definition expected_row :: "'m arithmetic \<Rightarrow> EntityType \<Rightarrow> string \<Rightarrow> EntityType \<Rightarrow> ('m, 'd::linorder) fact list \<Rightarrow> string \<Rightarrow> ('m, 'd) result_row" where
  "expected_row ar sd sv td facts k =
     (let its = related_facts sd sv td k facts;
          amounts = present_values (map total_contract_amount its);
          dates = present_values (map award_date its)
      in [(''entity'', Some (Text k)),
          (''contract_count'', Some (Count (length its))),
          (''total_contract_value'',
             if amounts = [] then None else Some (Number (agg_sum ar amounts))),
          (''average_contract_value'',
             if amounts = [] then None else Some (Number (agg_avg ar amounts))),
          (''first_contract_date'',
             if dates = [] then None else Some (Date (Min (set dates)))),
          (''last_contract_date'',
             if dates = [] then None else Some (Date (Max (set dates))))])"

text \<open>
  Names for the parts of \<open>run_select\<close> at the statement of \<open>queryTopRelated\<close>: the facts its
  conditions keep, the row it builds for a group, and the entities in the order of its
  rows before the limit.
\<close>

definition kept_facts :: "EntityType \<Rightarrow> string \<Rightarrow> EntityType \<Rightarrow> ('m, 'd) fact list \<Rightarrow> ('m, 'd) fact list" where
  "kept_facts sd sv td facts =
     filter (\<lambda>f. dimension_value sd f = Some sv \<and> dimension_value td f \<noteq> None) facts"

definition group_row :: "'m arithmetic \<Rightarrow> EntityType \<Rightarrow> ('m, 'd::linorder) fact list \<Rightarrow> string option \<Rightarrow> ('m, 'd) result_row" where
  "group_row ar td kept k =
     (let g = filter (\<lambda>f. dimension_value td f = k) kept
      in [(''entity'', map_option Text k),
          (''contract_count'', Some (Count (length g))),
          (''total_contract_value'', map_option Number (sql_sum ar (map total_contract_amount g))),
          (''average_contract_value'', map_option Number (sql_avg ar (map total_contract_amount g))),
          (''first_contract_date'', map_option Date (sql_min (map award_date g))),
          (''last_contract_date'', map_option Date (sql_max (map award_date g)))])"

definition ranked :: "'m::linorder arithmetic \<Rightarrow> EntityType \<Rightarrow> string \<Rightarrow> EntityType \<Rightarrow> ('m, 'd) fact list \<Rightarrow> string list" where
  "ranked ar sd sv td facts =
     rev (sort_key (expected_total ar sd sv td facts)
            (remdups (present_values (map (dimension_value td) (kept_facts sd sv td facts)))))"

text \<open>Exact arithmetic on rationals, and a small facts table with day numbers as dates.\<close>

definition rational_arithmetic :: "rat arithmetic" where
  "rational_arithmetic =
     \<lparr>agg_sum = sum_list, agg_avg = (\<lambda>xs. sum_list xs / of_nat (length xs))\<rparr>"

definition sample_facts :: "(rat, int) fact list" where
  "sample_facts =
     [\<lparr>contractor_name = Some ''ACME CORP'', area_of_delivery = Some ''Metro'',
       organization_name = Some ''DPWH'', business_category = None,
       total_contract_amount = Some 100, award_date = Some 10\<rparr>,
      \<lparr>contractor_name = Some ''ACME CORP'', area_of_delivery = Some ''Cebu'',
       organization_name = Some ''DPWH'', business_category = None,
       total_contract_amount = Some 300, award_date = Some 20\<rparr>,
      \<lparr>contractor_name = Some ''ACME CORP'', area_of_delivery = Some ''Metro'',
       organization_name = None, business_category = None,
       total_contract_amount = Some 50, award_date = Some 5\<rparr>,
      \<lparr>contractor_name = Some ''OTHER'', area_of_delivery = Some ''Metro'',
       organization_name = None, business_category = None,
       total_contract_amount = Some 1000, award_date = Some 1\<rparr>,
      \<lparr>contractor_name = Some ''ACME CORP'', area_of_delivery = None,
       organization_name = None, business_category = None,
       total_contract_amount = Some 7, award_date = None\<rparr>]"

text \<open>
  How the engine reads a string literal: the text between the outer apostrophes, with two
  apostrophes standing for one; \<open>None\<close> when the literal is not terminated or text follows
  its closing apostrophe.
\<close>

fun literal_body :: "string \<Rightarrow> string option" where
  "literal_body [] = None"
| "literal_body [c] = (if c = apostrophe then Some [] else None)"
| "literal_body (c # c' # cs) =
     (if c \<noteq> apostrophe then map_option (\<lambda>r. c # r) (literal_body (c' # cs))
      else if c' = apostrophe then map_option (\<lambda>r. apostrophe # r) (literal_body cs)
      else None)"

definition literal_value :: "string \<Rightarrow> string option" where
  "literal_value s = (case s of [] \<Rightarrow> None | c # cs \<Rightarrow> if c = apostrophe then literal_body cs else None)"

section \<open>The specification's wording of the compiled filter\<close>

text \<open>
  The data model's breadcrumb: the contexts from the current one up its parent chain,
  reversed, so that the root comes first.
\<close>

fun leaf_to_root :: "DrillModalData \<Rightarrow> (EntityType \<times> string) list" where
  "leaf_to_root (DrillModalData d v t None) = [(d, v)]"
| "leaf_to_root (DrillModalData d v t (Some pm)) = (d, v) # leaf_to_root pm"

definition breadcrumb :: "DrillModalData \<Rightarrow> (EntityType \<times> string) list" where
  "breadcrumb m = rev (leaf_to_root m)"




text \<open>The filter entry a context of the breadcrumb stands for.\<close>

definition crumb_filter :: "EntityType \<times> string \<Rightarrow> filter_entry" where
  "crumb_filter c = \<lparr>filter_dim = dim_name (fst c), filter_value = snd c\<rparr>"

section \<open>What the modal shows, and three sessions\<close>

text \<open>
  What the render reads from \<open>modalData\<close>: an entity tab by its key, the contracts tab, and
  the context of the modal with its parent.
\<close>

definition shown_tab :: "EntityType \<Rightarrow> DrillModalData option \<Rightarrow> entity_tab option" where
  "shown_tab k md = (case md of None \<Rightarrow> None | Some m \<Rightarrow> map_of (entity_tabs (tabs m)) k)"

definition shown_contracts :: "DrillModalData option \<Rightarrow> contracts_tab option" where
  "shown_contracts md = map_option (\<lambda>m. contracts (tabs m)) md"

definition shown_context :: "DrillModalData option \<Rightarrow> (EntityType \<times> string \<times> DrillModalData option) option" where
  "shown_context md = map_option (\<lambda>m. (srcDim m, srcVal m, parentModal m)) md"

text \<open>The user drills on the contractor ACME CORP in the top-level table.\<close>

definition acme_drilled :: explorer where
  "acme_drilled = onDrill ''ACME CORP'' False None initial_explorer"

text \<open>
  First session. The areas tab is answered, the user drills on the area Metro while the
  contracts query of ACME CORP is still in flight; the contracts query of the new context
  is answered first, the older one after it.
\<close>

definition superseded_drill :: explorer where
  "superseded_drill =
     onModalDrill ''Metro'' area
       (settle 0 (Resolved [[(''entity'', Str ''Metro'')]] 0) acme_drilled)"

definition newer_answered :: explorer where
  "newer_answered = settle 6 (Resolved [[(''contract_no'', Str ''N-1'')]] 1) superseded_drill"

definition late_answered :: explorer where
  "late_answered =
     settle 2 (Resolved [[(''contract_no'', Str ''OLD-1'')], [(''contract_no'', Str ''OLD-2'')]] 2)
       newer_answered"

text \<open>
  Second session. All four queries of ACME CORP are answered, the user drills on the area
  Metro and then goes back.
\<close>

definition loaded_modal :: explorer where
  "loaded_modal =
     settle 0 (Resolved [[(''contract_no'', Str ''C-1'')]] 1)
       (settle 0 (Resolved [] 0)
          (settle 0 (Resolved [] 0)
             (settle 0 (Resolved [[(''entity'', Str ''Metro'')]] 0) acme_drilled)))"

definition nested_modal :: explorer where
  "nested_modal = onModalDrill ''Metro'' area loaded_modal"

definition back_to_parent :: explorer where
  "back_to_parent = goBack nested_modal"

text \<open>
  Third session. The first page of 45 contracts is shown; the user asks for the next
  page, the timer fires, and the query fails.
\<close>

definition first_page_loaded :: explorer where
  "first_page_loaded = settle 3 (Resolved [[(''contract_no'', Str ''C-1'')]] 45) acme_drilled"

definition repage_sent :: explorer where
  "repage_sent =
     modal_contracts_dispatch
       ([\<lparr>filter_dim = ''contractor'', filter_value = ''ACME CORP''\<rparr>], 20, ''award_date DESC'')
       first_page_loaded"

definition repage_failed :: explorer where
  "repage_failed =
     settle 3 (Rejected \<lparr>message = ''boom'', as_string = ''Error: boom''\<rparr>) repage_sent"

section \<open>Properties\<close>

lemma show_nat_digit: "n < 10 \<Longrightarrow> show_nat n = [digit n]"
  by (simp add: show_nat.simps)

lemma show_nat_step: "10 \<le> n \<Longrightarrow> show_nat n = show_nat (n div 10) @ [digit (n mod 10)]"
  by (subst show_nat.simps) simp

text \<open>
  C10. The mapping of the entity aggregation query and the mapping of the contract listing
  query agree on each of the four dimensions, and both give the column of the fixed table.
\<close>

theorem C10_dimToCol_agree:
  "dimToCol_related (dim_name d) = column_table d \<and>
   dimToCol_contracts (dim_name d) = column_table d \<and>
   dimToCol_related (dim_name d) = dimToCol_contracts (dim_name d)"
  by (cases d) (simp_all add: dimToCol_related_def dimToCol_contracts_def)

text \<open>
  C1. The claim asks for \<open>OFFSET itemOffset\<close>. The top-level table pages by item offset:
  from the first page, Next hands \<open>load\<close> the offset 10, and \<open>queryParquetPaged\<close> multiplies
  it by the page size once more, so the data query skips 100 rows instead of 10.
\<close>

theorem C1_paged_offset_multiplied:
  "main_next_onClick 0 = 10 \<and>
   load (main_next_onClick 0)
     \<lparr>opt_where = Some ''contract_count > 0'',
      opt_orderBy = Some ''total_contract_value DESC'',
      opt_columns = None\<rparr> ! 1
   = ''SELECT * FROM v WHERE contract_count > 0 ORDER BY total_contract_value DESC LIMIT 10 OFFSET 100''"
  by (simp add: main_next_onClick_def pageSize_def load_def queryParquetPaged_def
      paged_data_sql_def paged_projection_def paged_where_def paged_order_def
      paged_offset_def show_number_def show_nat_step show_nat_digit digit_def)

subsection \<open>The compiled filter\<close>



lemma breadcrumb_walk_acc:
  "breadcrumb_walk (Some m) acc = map crumb_filter (rev (leaf_to_root m)) @ acc"
  by (induction m arbitrary: acc rule: leaf_to_root.induct) (simp_all add: crumb_filter_def)

lemma breadcrumbFilters_breadcrumb: "breadcrumbFilters m = map crumb_filter (breadcrumb m)"
  by (simp add: breadcrumbFilters_def breadcrumb_def breadcrumb_walk_acc)


lemma dimToCol_related_table: "dimToCol_related (dim_name d) = column_table d"
  by (cases d) (simp_all add: dimToCol_related_def)



lemma literal_body_esc: "literal_body (esc v @ [apostrophe]) = Some v"
proof (induction v)
  case Nil
  show ?case by simp
next
  case (Cons c cs)
  obtain y ys where "esc cs @ [apostrophe] = y # ys"
    by (cases "esc cs @ [apostrophe]") auto
  with Cons show ?case by (auto simp: apostrophe_def)
qed

lemma literal_value_esc: "literal_value (apostrophe # esc v @ [apostrophe]) = Some v"
  by (simp add: literal_value_def literal_body_esc)


lemma getFactsUrl_upd [simp]:
  "getFactsUrl (s\<lparr>modalData := md\<rparr>) = getFactsUrl s"
  "getFactsUrl (s\<lparr>activeTab := atb\<rparr>) = getFactsUrl s"
  "getFactsUrl (s\<lparr>inflight := fl\<rparr>) = getFactsUrl s"
  "getFactsUrl (s\<lparr>dataset_sel := ds\<rparr>) = getFactsUrl s"
  by (simp_all add: getFactsUrl_def split: timeRange.splits)




subsection \<open>The select list under a drifted schema\<close>

lemma select_list_output_keys:
  "map output_key (select_list av) =
     [''award_date'', ''contractor_name'', ''business_category'', ''organization_name'',
      ''area_of_delivery'', ''contract_value'', ''award_title'', ''notice_title'',
      ''contract_no'']"
  by (simp add: select_list_def)

lemma select_list_reads_available:
  "set (concat (map item_columns (select_list av))) \<subseteq> av"
  by (simp add: select_list_def has_def)

lemma obj_set_keys: "fst ` set (obj_set k v kvs) = insert k (fst ` set kvs)"
proof (induction kvs)
  case Nil
  show ?case by simp
next
  case (Cons a kvs)
  obtain k' v' where a: "a = (k', v')" by (cases a)
  show ?case
  proof (cases "k' = k")
    case True
    with a show ?thesis by simp
  next
    case False
    with a Cons show ?thesis by (simp add: insert_commute)
  qed
qed

lemma assign_fields_keys:
  "fst ` set (assign_fields kvs obj) = fst ` set obj \<union> fst ` set kvs"
  by (induction kvs obj rule: assign_fields.induct) (simp_all add: obj_set_keys)

lemma normalize_row_keys: "fst ` set (normalize_row fs r) = set fs"
proof (cases r)
  case (Named ro)
  have "fst ` (\<lambda>name. (name, obj_get ro name)) ` set fs = set fs"
    by (simp add: image_image)
  with Named show ?thesis
    by (simp add: normalize_row_def assign_fields_keys)
next
  case (Positional a)
  have "map fst (map (\<lambda>(idx, name). (name, arr_get a idx)) (enumerate 0 fs)) = fs"
    by (simp add: case_prod_unfold comp_def)
  then have "fst ` set (map (\<lambda>(idx, name). (name, arr_get a idx)) (enumerate 0 fs)) = set fs"
    by (metis set_map)
  with Positional show ?thesis
    by (simp add: normalize_row_def assign_fields_keys)
next
  case NoRow
  have "fst ` (\<lambda>name. (name, Undefined)) ` set fs = set fs"
    by (simp add: image_image)
  with NoRow show ?thesis
    by (simp add: normalize_row_def assign_fields_keys)
qed

text \<open>
  C4. The claim asks that the listing query succeeds whenever the facts source lacks
  expected output columns. The select list is guarded (the three lemmas above: its nine
  keys are fixed, it reads available columns only, and a normalised row has every result
  field), but the filter is not: with \<open>contractor_name\<close> absent and a drill on a
  contractor, the select list substitutes the empty literal while the count statement
  still names \<open>contractor_name\<close>, a column the facts view does not have.
\<close>

theorem C4_filter_column_not_guarded:
  "(let availableCols = {''award_date'', ''business_category'', ''organization_name'',
                         ''area_of_delivery'', ''total_contract_amount'', ''award_title'',
                         ''notice_title'', ''contract_no''};
        filters = [\<lparr>filter_dim = ''contractor'', filter_value = ''ACME CORP''\<rparr>]
    in queryContractsByEntity availableCols filters 0 20 (Some ''award_date DESC'') ! 3
         = ''SELECT COUNT(*) AS c FROM facts_v WHERE contractor_name = 'ACME CORP'' @ [apostrophe]
       \<and> where_columns filters = [''contractor_name'']
       \<and> \<not> has availableCols ''contractor_name''
       \<and> render_item (select_list availableCols ! 1)
           = [apostrophe, apostrophe] @ '' AS contractor_name'')"
  by (simp add: queryContractsByEntity_def countSql_def whereCombined_def whereClauses_def
      whereClause_def dimToCol_contracts_def where_columns_def has_def select_list_def
      empty_literal_def apostrophe_def)

subsection \<open>Answers and the tabs of the modal\<close>

lemma map_of_obj_set: "map_of (obj_set k v kvs) k' = (if k' = k then Some v else map_of kvs k')"
  by (induction kvs) auto

lemma with_tabs_sel [simp]:
  "tabs (with_tabs f m) = f (tabs m)"
  "srcDim (with_tabs f m) = srcDim m"
  "srcVal (with_tabs f m) = srcVal m"
  "parentModal (with_tabs f m) = parentModal m"
  by (cases m; simp)+

lemma shown_tab_related:
  "shown_tab k' (set_entity_tab k tb prev) =
     (if k' = k then map_option (\<lambda>m. tb) prev else shown_tab k' prev)"
  by (cases prev) (simp_all add: shown_tab_def set_entity_tab_def map_of_obj_set)

lemma shown_tab_contracts: "shown_tab k' (set_contracts_tab f prev) = shown_tab k' prev"
  by (cases prev) (simp_all add: shown_tab_def set_contracts_tab_def)

lemma shown_contracts_related: "shown_contracts (set_entity_tab k tb prev) = shown_contracts prev"
  by (cases prev) (simp_all add: shown_contracts_def set_entity_tab_def)

lemma shown_contracts_contracts:
  "shown_contracts (set_contracts_tab f prev) = map_option f (shown_contracts prev)"
  by (cases prev) (simp_all add: shown_contracts_def set_contracts_tab_def)

lemma shown_context_write: "shown_context (write_answer k out prev) = shown_context prev"
  by (cases prev; cases k; cases out)
    (simp_all add: shown_context_def set_contracts_tab_def set_entity_tab_def)

lemma write_answer_None: "write_answer k out None = None"
  by (cases k; cases out) (simp_all add: set_contracts_tab_def set_entity_tab_def)

lemma settle_at:
  "settle (length pre) out (s\<lparr>inflight := pre @ (q, k) # post\<rparr>) =
     s\<lparr>modalData := write_answer k out (modalData s), inflight := pre @ post\<rparr>"
  by (simp add: settle_def)

lemmas session_defs =
  acme_drilled_def onDrill_def onModalDrill_def settle_def initial_explorer_def
  related_queries_def otherEntityTypes_def allEntityTypes_def initial_tabs_def
  loading_tab_def loading_contracts_def set_entity_tab_def set_contracts_tab_def
  breadcrumbFilters_def Let_def getFactsUrl_def shown_contracts_def shown_tab_def
  shown_context_def goBack_def firstTab_def modal_contracts_dispatch_def
  first_render_facts_url_def

text \<open>
  C2, as the claim states it, fails. In the first session the contracts query of the
  context ACME CORP is superseded by that of the context ACME CORP, Metro. The newer
  answer is written first; the late answer of the superseded query is then written over
  it, and the modal of Metro shows the rows and the count of the older query.
\<close>

theorem C2_late_answer_overwrites:
  "fst (inflight superseded_drill ! 2) =
     QueryContractsByEntity [\<lparr>filter_dim = ''contractor'', filter_value = ''ACME CORP''\<rparr>]
       0 20 ''award_date DESC'' ''/parquet/facts_awards_all_time.parquet''
   \<and> fst (inflight superseded_drill ! 6) =
     QueryContractsByEntity
       [\<lparr>filter_dim = ''contractor'', filter_value = ''ACME CORP''\<rparr>,
        \<lparr>filter_dim = ''area'', filter_value = ''Metro''\<rparr>]
       0 20 ''award_date DESC'' ''/parquet/facts_awards_all_time.parquet''
   \<and> shown_contracts (modalData newer_answered) =
       Some \<lparr>data = [[(''contract_no'', Str ''N-1'')]], loading = False, error = None,
             totalCount = 1, pageIndex = 0\<rparr>
   \<and> shown_contracts (modalData late_answered) =
       Some \<lparr>data = [[(''contract_no'', Str ''OLD-1'')], [(''contract_no'', Str ''OLD-2'')]],
             loading = False, error = None, totalCount = 2, pageIndex = 0\<rparr>
   \<and> modalData late_answered \<noteq> modalData newer_answered"
  by (simp add: superseded_drill_def newer_answered_def late_answered_def session_defs)

text \<open>
  C2, amended. The code keeps no request-generation token. The answer of a query, late
  or not, is written to its tab of whatever modal is open when it arrives, without a look
  at the context the query was sent for; it is dropped only when no modal is open. A tab
  therefore shows the answer that arrived last.
\<close>

theorem C2_answer_written_to_open_modal:
  "settle (length pre) out (s\<lparr>inflight := pre @ (q, k) # post\<rparr>) =
     s\<lparr>modalData := write_answer k out (modalData s), inflight := pre @ post\<rparr>
   \<and> shown_contracts (write_answer DrillContracts (Resolved rows n) prev) =
       map_option (\<lambda>m. \<lparr>data = rows, loading = False, error = None, totalCount = n,
                         pageIndex = 0\<rparr>) prev
   \<and> shown_contracts (write_answer (DebouncedContracts off) (Resolved rows n) prev) =
       map_option (\<lambda>m. \<lparr>data = rows, loading = False, error = None, totalCount = n,
                         pageIndex = off\<rparr>) prev
   \<and> shown_tab et (write_answer (DrillRelated et) (Resolved rows n) prev) =
       map_option (\<lambda>m. \<lparr>data = rows, loading = False, error = None\<rparr>) prev
   \<and> write_answer k out None = None"
  by (simp add: shown_tab_related shown_contracts_contracts settle_at write_answer_None)
    (simp add: shown_contracts_def option.map_comp comp_def)

subsection \<open>Entering a context\<close>

lemma breadcrumbFilters_nested:
  "breadcrumbFilters (DrillModalData d v t (Some cur)) =
     breadcrumbFilters cur @ [\<lparr>filter_dim = dim_name d, filter_value = v\<rparr>]"
  by (simp add: breadcrumbFilters_breadcrumb breadcrumb_def crumb_filter_def)

lemma otherEntityTypes_cases:
  "otherEntityTypes contractor = [area, organization, category]"
  "otherEntityTypes area = [contractor, organization, category]"
  "otherEntityTypes organization = [contractor, area, category]"
  "otherEntityTypes category = [contractor, area, organization]"
  by (simp_all add: otherEntityTypes_def allEntityTypes_def)

lemma initial_tabs_loading:
  "map fst (entity_tabs (initial_tabs d)) = otherEntityTypes d"
  "map snd (entity_tabs (initial_tabs d)) = [loading_tab, loading_tab, loading_tab]"
  "contracts (initial_tabs d) = loading_contracts"
  by (cases d; simp add: initial_tabs_def otherEntityTypes_cases)+

text \<open>
  C7, as the claim states it, fails for \<open>goBack\<close>. In the second session the user goes back
  from the context Metro to its parent ACME CORP: the modal is the parent as it was
  stored, with its tabs loaded and not loading, and no query is launched.
\<close>

theorem C7_goBack_restores_stored_parent:
  "shown_context (modalData nested_modal) = Some (area, ''Metro'', modalData loaded_modal)
   \<and> modalData back_to_parent = modalData loaded_modal
   \<and> shown_contracts (modalData back_to_parent) =
       Some \<lparr>data = [[(''contract_no'', Str ''C-1'')]], loading = False, error = None,
             totalCount = 1, pageIndex = 0\<rparr>
   \<and> shown_tab area (modalData back_to_parent) =
       Some \<lparr>data = [[(''entity'', Str ''Metro'')]], loading = False, error = None\<rparr>
   \<and> inflight back_to_parent = inflight nested_modal"
  by (simp add: loaded_modal_def nested_modal_def back_to_parent_def session_defs)

text \<open>
  C7, amended. A drill from the top-level table and a drill from a tab of the open modal
  set the modal to the new context with a loading, empty tab for each of the three other
  entity types and a loading, empty contracts tab, and launch at once one aggregation
  query for each of these tabs and the contracts query with the filters of the whole
  breadcrumb. \<open>goBack\<close> from a context with a parent makes the stored parent the modal, as
  it was when the user drilled from it, and launches nothing; from a root it closes the
  modal.
\<close>

theorem C7_drill_reinitialises_goBack_restores:
  "modalData (onDrill v False None s) =
     Some (DrillModalData (srcDimForDataset (dataset_sel s)) v
             (initial_tabs (srcDimForDataset (dataset_sel s))) None)
   \<and> inflight (onDrill v False None s) =
       inflight s @ related_queries (srcDimForDataset (dataset_sel s)) v (getFactsUrl s)
         @ [(QueryContractsByEntity
               [\<lparr>filter_dim = dim_name (srcDimForDataset (dataset_sel s)), filter_value = v\<rparr>]
               0 20 ''award_date DESC'' (getFactsUrl s), DrillContracts)]
   \<and> modalData (onModalDrill v et (s\<lparr>modalData := Some cur\<rparr>)) =
       Some (DrillModalData et v (initial_tabs et) (Some cur))
   \<and> inflight (onModalDrill v et (s\<lparr>modalData := Some cur\<rparr>)) =
       inflight s @ related_queries et v (getFactsUrl s)
         @ [(QueryContractsByEntity
               (breadcrumbFilters cur @ [\<lparr>filter_dim = dim_name et, filter_value = v\<rparr>])
               0 20 ''award_date DESC'' (getFactsUrl s), DrillContracts)]
   \<and> map fst (entity_tabs (initial_tabs d)) = otherEntityTypes d
   \<and> map snd (entity_tabs (initial_tabs d)) = [loading_tab, loading_tab, loading_tab]
   \<and> contracts (initial_tabs d) = loading_contracts
   \<and> loading loading_tab \<and> data loading_tab = [] \<and> error loading_tab = None
   \<and> loading loading_contracts \<and> data loading_contracts = []
   \<and> map snd (related_queries d v url) = map DrillRelated (otherEntityTypes d)
   \<and> goBack (s\<lparr>modalData := Some (DrillModalData d v t (Some pm))\<rparr>) =
       s\<lparr>modalData := Some pm, activeTab := Some (firstTab (tabs pm))\<rparr>
   \<and> goBack (s\<lparr>modalData := Some (DrillModalData d v t None)\<rparr>) =
       s\<lparr>modalData := None, activeTab := None\<rparr>"
  by (simp add: onDrill_def onModalDrill_def Let_def breadcrumbFilters_nested
      initial_tabs_loading loading_tab_def loading_contracts_def related_queries_def goBack_def
      comp_def)

subsection \<open>A failing query\<close>

text \<open>
  C9, as the claim states it, fails for a re-page or re-sort of the contracts tab. In the
  third session the query for the second page fails: the contracts tab gets the error and
  stops loading, but it keeps the row of the first page, its count and its offset.
\<close>

theorem C9_failed_repage_keeps_rows:
  "modal_next_onClick first_page_loaded =
     Some ([\<lparr>filter_dim = ''contractor'', filter_value = ''ACME CORP''\<rparr>], 20,
           ''award_date DESC'')
   \<and> inflight repage_sent ! 3 =
       (QueryContractsByEntity [\<lparr>filter_dim = ''contractor'', filter_value = ''ACME CORP''\<rparr>]
          20 20 ''award_date DESC'' ''/parquet/facts_awards_all_time.parquet'',
        DebouncedContracts 20)
   \<and> shown_contracts (modalData repage_failed) =
       Some \<lparr>data = [[(''contract_no'', Str ''C-1'')]], loading = False,
             error = Some ''Error: boom'', totalCount = 45, pageIndex = 0\<rparr>"
  by (simp add: first_page_loaded_def repage_sent_def repage_failed_def session_defs
      modal_next_onClick_def getCurrentPage_def getTotalPages_def pageSize_def
      contracts_order_def)

text \<open>
  C9, amended. A failing query writes its own tab only. For a query launched by a drill
  the tab gets no rows, \<open>loading = False\<close> and the error message (the contracts tab also
  the count 0 and the offset 0); for a re-page or re-sort of the contracts tab the tab
  gets \<open>loading = False\<close> and the error and keeps its rows, count and offset. Every other
  tab, the context and the parent chain are as before, and the other queries in flight
  stay in flight.
\<close>

theorem C9_failure_writes_own_tab_only:
  "shown_tab k' (write_answer (DrillRelated k) (Rejected e) prev) =
     (if k' = k
      then map_option (\<lambda>m. \<lparr>data = [], loading = False, error = Some (message_or_string e)\<rparr>) prev
      else shown_tab k' prev)
   \<and> shown_contracts (write_answer (DrillRelated k) (Rejected e) prev) = shown_contracts prev
   \<and> shown_contracts (write_answer DrillContracts (Rejected e) prev) =
       map_option (\<lambda>m. \<lparr>data = [], loading = False, error = Some (message_or_string e),
                         totalCount = 0, pageIndex = 0\<rparr>) prev
   \<and> shown_tab k' (write_answer DrillContracts (Rejected e) prev) = shown_tab k' prev
   \<and> shown_contracts (write_answer (DebouncedContracts off) (Rejected e) prev) =
       map_option (\<lambda>c. c\<lparr>loading := False, error := Some (as_string e)\<rparr>) (shown_contracts prev)
   \<and> shown_tab k' (write_answer (DebouncedContracts off) (Rejected e) prev) = shown_tab k' prev
   \<and> shown_context (write_answer kont (Rejected e) prev) = shown_context prev
   \<and> inflight (settle (length pre) (Rejected e) (s\<lparr>inflight := pre @ (q, kont) # post\<rparr>))
       = pre @ post"
  by (simp add: shown_tab_related shown_tab_contracts shown_contracts_related
      shown_contracts_contracts shown_context_write settle_at)
    (simp add: shown_contracts_def option.map_comp comp_def)

subsection \<open>Paging the contracts tab\<close>

lemma show_number_20: "show_number 20 = ''20''" "show_number (- 20) = ''-20''"
  by (simp_all add: show_number_def show_nat_step show_nat_digit digit_def)

lemma selectSql_minus_20:
  "selectSql av [\<lparr>filter_dim = ''contractor'', filter_value = ''ACME CORP''\<rparr>] (- 20) 20
     (Some ''award_date DESC'')
   = ''\<newline>    SELECT \<newline>      ''
     @ join '',\<newline>      '' (map render_item (select_list av))
     @ ''\<newline>    FROM facts_v\<newline>    WHERE contractor_name = 'ACME CORP'\<newline>    ORDER BY award_date DESC\<newline>    LIMIT 20 OFFSET -20\<newline>  ''"
  by (simp add: selectSql_def whereCombined_def whereClauses_def whereClause_def
      dimToCol_contracts_def orderClause_def contracts_offset_def show_number_20 apostrophe_def)

lemma first_page_state:
  "first_page_loaded =
     initial_explorer
       \<lparr>modalData := Some (DrillModalData contractor ''ACME CORP''
            \<lparr>entity_tabs = [(area, loading_tab), (organization, loading_tab),
                             (category, loading_tab)],
             contracts = \<lparr>data = [[(''contract_no'', Str ''C-1'')]], loading = False,
                          error = None, totalCount = 45, pageIndex = 0\<rparr>\<rparr> None),
        activeTab := Some ContractsTab,
        inflight := related_queries contractor ''ACME CORP''
                      ''/parquet/facts_awards_all_time.parquet''\<rparr>"
  by (simp add: first_page_loaded_def acme_drilled_def onDrill_def settle_def
      initial_explorer_def related_queries_def otherEntityTypes_def allEntityTypes_def
      initial_tabs_def loading_contracts_def set_contracts_tab_def Let_def getFactsUrl_def)

lemma debounced_alone:
  "dispatched (elapse 1000 (debounced p timers_init)) = [p]"
  by (simp add: elapse_def debounced_def timers_init_def clear_ref_def setTimeout_def
      is_due_def Let_def)

text \<open>
  C8. The claim asks that Previous on the first page never sends a negative offset. In
  the third session's first state the contracts tab is at offset 0. The Previous button
  is not disabled there (the page number it tests is 1, never 0), its handler tests the
  same 1-based page number against 0 and schedules the offset \<open>-20\<close>; when the timer has
  fired, the contract listing query is sent with \<open>LIMIT 20 OFFSET -20\<close>.
\<close>

theorem C8_previous_on_first_page:
  "(let s = first_page_loaded;
        fs = [\<lparr>filter_dim = ''contractor'', filter_value = ''ACME CORP''\<rparr>];
        p = (fs, - 20, ''award_date DESC'')
    in map_option pageIndex (shown_contracts (modalData s)) = Some 0
     \<and> map_option modal_previous_disabled (modalData s) = Some False
     \<and> modal_previous_onClick s = Some p
     \<and> dispatched (elapse 1000 (debounced p timers_init)) = [p]
     \<and> fst (last (inflight (modal_contracts_dispatch p s)))
         = QueryContractsByEntity fs (- 20) 20 ''award_date DESC''
             ''/parquet/facts_awards_all_time.parquet''
     \<and> selectSql av fs (- 20) 20 (Some ''award_date DESC'')
         = ''\<newline>    SELECT \<newline>      ''
           @ join '',\<newline>      '' (map render_item (select_list av))
           @ ''\<newline>    FROM facts_v\<newline>    WHERE contractor_name = 'ACME CORP'\<newline>    ORDER BY award_date DESC\<newline>    LIMIT 20 OFFSET -20\<newline>  '')"
  unfolding Let_def first_page_state debounced_alone selectSql_minus_20
  by (simp add: modal_previous_disabled_def modal_previous_onClick_def getModalCurrentPage_def
      getCurrentPage_def pageSize_def breadcrumbFilters_def contracts_order_def
      modal_contracts_dispatch_def initial_explorer_def getFactsUrl_def shown_contracts_def
      first_render_facts_url_def)

subsection \<open>The debounce\<close>

lemma clear_ref_armed: "only_ref_armed s \<Longrightarrow> clear_ref s = s\<lparr>armed := []\<rparr>"
proof (cases "timeoutRef s")
  case None
  assume "only_ref_armed s"
  with None have "armed s = []"
    by (cases "armed s") (simp_all add: only_ref_armed_def)
  with None show ?thesis by (simp add: clear_ref_def)
next
  case (Some h)
  assume "only_ref_armed s"
  with Some have "filter (\<lambda>t. fst t \<noteq> h) (armed s) = []"
    by (auto simp: only_ref_armed_def list_all_iff filter_empty_conv)
  with Some show ?thesis by (simp add: clear_ref_def clearTimeout_def)
qed

lemma debounced_armed:
  assumes "only_ref_armed s"
  shows "debounced p s =
           s\<lparr>armed := [(next_handle s, now s + 1000, p)],
             debouncing := True,
             next_handle := Suc (next_handle s),
             timeoutRef := Some (next_handle s)\<rparr>"
  by (simp add: debounced_def clear_ref_armed [OF assms] setTimeout_def Let_def)

lemma elapse_short:
  assumes "only_ref_armed s" and "g < 1000"
  shows "only_ref_armed (elapse g (debounced p s))"
    and "dispatched (elapse g (debounced p s)) = dispatched s"
  using assms(2)
  by (simp_all add: debounced_armed [OF assms(1)] elapse_def is_due_def Let_def
      only_ref_armed_def)

lemma burst_quiet:
  "only_ref_armed s \<Longrightarrow> gaps_within_window calls \<Longrightarrow>
     only_ref_armed (burst calls s) \<and> dispatched (burst calls s) = dispatched s"
proof (induction calls arbitrary: s)
  case Nil
  then show ?case by simp
next
  case (Cons c calls)
  obtain p g where c: "c = (p, g)" by (cases c)
  from Cons.prems(2) c have g: "g < 1000" and rest: "gaps_within_window calls"
    by (simp_all add: gaps_within_window_def)
  from Cons.IH [OF elapse_short(1) [OF Cons.prems(1) g] rest, of p] c
    elapse_short(2) [OF Cons.prems(1) g, of p]
  show ?case by simp
qed

lemma elapse_fires:
  assumes "only_ref_armed s" and "1000 \<le> d"
  shows "dispatched (elapse d (debounced p s)) = dispatched s @ [p]"
  using assms(2)
  by (simp add: debounced_armed [OF assms(1)] elapse_def is_due_def Let_def)

lemma cleanup_cancels:
  assumes "only_ref_armed s"
  shows "dispatched (elapse d (unmount_cleanup (debounced p s))) = dispatched s"
  by (simp add: debounced_armed [OF assms] unmount_cleanup_def clear_ref_def clearTimeout_def
      elapse_def Let_def)

text \<open>
  C5. The debounced function is called \<open>N\<close> times, \<open>N - 1\<close> calls each followed by less than
  1000 ms and then the last call with the parameters \<open>p\<close>. When 1000 ms or more have passed
  after the last call, exactly one load has run since the start, with the parameters \<open>p\<close>
  of the last call. If instead the cleanup runs after the last call, no load runs however
  much time passes.
\<close>

theorem C5_debounce_last_call_only:
  assumes "only_ref_armed s" and "gaps_within_window calls" and "1000 \<le> d"
  shows "dispatched (elapse d (debounced p (burst calls s))) = dispatched s @ [p]
       \<and> dispatched (elapse d' (unmount_cleanup (debounced p (burst calls s)))) = dispatched s"
proof -
  from burst_quiet [OF assms(1,2)]
  have q: "only_ref_armed (burst calls s)" and d: "dispatched (burst calls s) = dispatched s"
    by simp_all
  show ?thesis
    using elapse_fires [OF q assms(3), of p] cleanup_cancels [OF q, of d' p] d by simp
qed

theorem C5_debounce_witness:
  "only_ref_armed (timers_init :: nat timers) \<and> gaps_within_window [(1::nat, 100), (2, 999)]
   \<and> dispatched (elapse 1000 (debounced (3::nat) (burst [(1, 100), (2, 999)] timers_init))) = [3]
   \<and> dispatched (elapse 5000
        (unmount_cleanup (debounced (3::nat) (burst [(1, 100), (2, 999)] timers_init)))) = []"
proof -
  have a: "only_ref_armed (timers_init :: nat timers)"
    by (simp add: only_ref_armed_def timers_init_def)
  have b: "gaps_within_window [(1::nat, 100::nat), (2, 999)]"
    by (simp add: gaps_within_window_def)
  have c: "(1000::nat) \<le> 1000" by simp
  from C5_debounce_last_call_only [OF a b c, of 3 5000] a b show ?thesis
    by (simp add: timers_init_def)
qed

subsection \<open>The rows of the entity aggregation query\<close>

lemma sql_text: "queryTopRelated_sql sd sv td limit = create_view_text @ render_select (topRelated_select sd sv td limit)"
  by (simp add: queryTopRelated_sql_def create_view_text_def render_select_def topRelated_select_def Let_def)

lemma text_column_table: "text_column (column_table d) = Some (dimension_value d)"
  by (cases d) (simp_all add: text_column_def fun_eq_iff)

lemma non_null_present: "non_null vs = present_values vs"
  by (induction vs) (simp_all add: non_null_def present_values_def split: option.splits)

lemma sql_sum_present:
  "sql_sum ar vs = (if present_values vs = [] then None else Some (agg_sum ar (present_values vs)))"
  by (simp add: sql_sum_def non_null_present split: list.splits)

lemma sql_avg_present:
  "sql_avg ar vs = (if present_values vs = [] then None else Some (agg_avg ar (present_values vs)))"
  by (simp add: sql_avg_def non_null_present split: list.splits)

lemma fold_min_Min: "fold min xs x = Min (insert x (set xs))"
  using Min.set_eq_fold [of x xs] by simp

lemma fold_max_Max: "fold max xs x = Max (insert x (set xs))"
  using Max.set_eq_fold [of x xs] by simp

lemma sql_min_present:
  "sql_min vs = (if present_values vs = [] then None else Some (Min (set (present_values vs))))"
  by (simp add: sql_min_def non_null_present fold_min_Min split: list.splits)

lemma sql_max_present:
  "sql_max vs = (if present_values vs = [] then None else Some (Max (set (present_values vs))))"
  by (simp add: sql_max_def non_null_present fold_max_Max split: list.splits)

lemma run_topRelated:
  assumes "0 \<le> limit"
  shows "run_select ar (topRelated_select sd sv td limit) facts =
           Inr (take (nat limit)
                  (rev (sort_key (order_key ''total_contract_value'')
                          (map (\<lambda>k. group_row ar td (kept_facts sd sv td facts) k)
                             (remdups (map (dimension_value td) (kept_facts sd sv td facts)))))))"
  using assms
  by (simp add: run_select_def topRelated_select_def dimToCol_related_table text_column_table
      number_column_def date_column_def numeric_alias_def kept_facts_def group_row_def Let_def
      cong: filter_cong)


lemma related_facts_kept:
  "filter (\<lambda>f. dimension_value td f = Some k) (kept_facts sd sv td facts)
     = related_facts sd sv td k facts"
  by (auto simp: kept_facts_def related_facts_def intro: filter_cong)

lemma group_row_expected:
  "group_row ar td (kept_facts sd sv td facts) (Some k) = expected_row ar sd sv td facts k"
  by (simp add: group_row_def expected_row_def related_facts_kept Let_def sql_sum_present
      sql_avg_present sql_min_present sql_max_present)

lemma present_Some: "present_values (map Some xs) = xs"
  by (induction xs) (simp_all add: present_values_def)

lemma all_present: "None \<notin> set vs \<Longrightarrow> map Some (present_values vs) = vs"
proof (induction vs)
  case Nil
  show ?case by (simp add: present_values_def)
next
  case (Cons a vs)
  then obtain y where "a = Some y" by (cases a) auto
  with Cons show ?case by (simp add: present_values_def)
qed

lemma remdups_Some: "remdups (map Some xs) = map Some (remdups xs)"
  by (induction xs) auto

lemma kept_keys:
  "remdups (map (dimension_value td) (kept_facts sd sv td facts))
     = map Some (remdups (present_values (map (dimension_value td) (kept_facts sd sv td facts))))"
proof -
  have "None \<notin> set (map (dimension_value td) (kept_facts sd sv td facts))"
    by (auto simp: kept_facts_def)
  then have "map Some (present_values (map (dimension_value td) (kept_facts sd sv td facts)))
               = map (dimension_value td) (kept_facts sd sv td facts)"
    by (rule all_present)
  then show ?thesis
    by (metis remdups_Some)
qed

lemma set_present: "set (present_values vs) = {x. Some x \<in> set vs}"
  by (induction vs) (auto simp: present_values_def split: option.splits)

lemma kept_entities:
  "set (present_values (map (dimension_value td) (kept_facts sd sv td facts)))
     = related_entities sd sv td facts"
proof -
  have "set (present_values (map (dimension_value td) (kept_facts sd sv td facts)))
          = {k. \<exists>f \<in> set facts. dimension_value sd f = Some sv \<and> dimension_value td f = Some k}"
    by (force simp: set_present kept_facts_def image_iff)
  moreover have "related_entities sd sv td facts
          = {k. \<exists>f \<in> set facts. dimension_value sd f = Some sv \<and> dimension_value td f = Some k}"
    by (force simp: set_present related_entities_def image_iff)
  ultimately show ?thesis by simp
qed

lemma insort_key_map:
  "insort_key f (h x) (map h ys) = map h (insort_key (\<lambda>y. f (h y)) x ys)"
  by (induction ys) simp_all

lemma sort_key_map: "sort_key f (map h xs) = map h (sort_key (\<lambda>y. f (h y)) xs)"
  by (induction xs) (simp_all add: insort_key_map)

lemma order_key_expected:
  "order_key ''total_contract_value'' (expected_row ar sd sv td facts k)
     = expected_total ar sd sv td facts k"
  by (simp add: order_key_def expected_row_def expected_total_def Let_def)

lemma run_ranked:
  assumes "0 \<le> limit"
  shows "run_select ar (topRelated_select sd sv td limit) facts =
           Inr (map (expected_row ar sd sv td facts) (take (nat limit) (ranked ar sd sv td facts)))"
  by (simp add: run_topRelated [OF assms] kept_keys comp_def group_row_expected sort_key_map
      order_key_expected ranked_def rev_map take_map)

lemma ranked_set: "set (ranked ar sd sv td facts) = related_entities sd sv td facts"
  by (simp add: ranked_def kept_entities)

lemma ranked_distinct: "distinct (ranked ar sd sv td facts)"
  by (simp add: ranked_def)

lemma ranked_length: "length (ranked ar sd sv td facts) = card (related_entities sd sv td facts)"
  using distinct_card [OF ranked_distinct, of ar sd sv td facts]
  by (simp add: ranked_set)

lemma ranked_sorted:
  "sorted_wrt (\<lambda>a b. expected_total ar sd sv td facts b \<le> expected_total ar sd sv td facts a)
     (ranked ar sd sv td facts)"
proof -
  let ?T = "expected_total ar sd sv td facts"
  let ?ks = "remdups (present_values (map (dimension_value td) (kept_facts sd sv td facts)))"
  have "sorted (map ?T (sort_key ?T ?ks))"
    by (rule sorted_sort_key)
  then have "sorted_wrt (\<lambda>a b. ?T a \<le> ?T b) (sort_key ?T ?ks)"
    by (simp add: sorted_map)
  then show ?thesis
    by (simp add: ranked_def sorted_wrt_rev)
qed

lemma take_is_top:
  assumes "sorted_wrt R xs" and "distinct xs" and "a \<in> set (take n xs)"
    and "b \<in> set xs - set (take n xs)"
  shows "R a b"
proof -
  have split: "xs = take n xs @ drop n xs" by simp
  from assms(4) have "b \<in> set (drop n xs)"
    by (metis DiffD1 DiffD2 Un_iff append_take_drop_id set_append)
  moreover from assms(1) have "sorted_wrt R (take n xs @ drop n xs)" by simp
  ultimately show ?thesis
    using assms(3) by (simp only: sorted_wrt_append)
qed

text \<open>
  C6. For a limit that is not negative, the text \<open>queryTopRelated\<close> builds is the view
  definition followed by the text of its statement, whose literal reads back as the
  source value, and the engine's answer to the statement is one row for each entity \<open>k\<close> of
  a list \<open>ks\<close>, where: \<open>ks\<close> has at most \<open>limit\<close> entities, as many as there are distinct
  non-null target values among the facts whose source column equals the source value if
  that is less; its entities are pairwise different and each is such a target value; the
  row of \<open>k\<close> carries \<open>k\<close>, the number of facts of the source value with target \<open>k\<close>, the
  sum and the average of their non-null amounts in the engine's arithmetic, and the least
  and greatest of their non-null award dates; the totals do not increase along \<open>ks\<close>; and
  no entity left out has a larger total than one that is in.
\<close>

theorem C6_topRelated_rows:
  assumes "0 \<le> limit"
  shows "queryTopRelated_sql sd sv td limit
           = create_view_text @ render_select (topRelated_select sd sv td limit)
       \<and> literal_value (apostrophe # esc sv @ [apostrophe]) = Some sv
       \<and> (\<exists>ks. run_select ar (topRelated_select sd sv td limit) facts
                   = Inr (map (expected_row ar sd sv td facts) ks)
              \<and> int (length ks) \<le> limit
              \<and> length ks = min (nat limit) (card (related_entities sd sv td facts))
              \<and> distinct ks
              \<and> set ks \<subseteq> related_entities sd sv td facts
              \<and> sorted_wrt (\<lambda>a b. expected_total ar sd sv td facts b
                                    \<le> expected_total ar sd sv td facts a) ks
              \<and> (\<forall>k \<in> set ks. \<forall>k' \<in> related_entities sd sv td facts - set ks.
                     expected_total ar sd sv td facts k'
                       \<le> expected_total ar sd sv td facts k))"
proof (intro conjI exI [of _ "take (nat limit) (ranked ar sd sv td facts)"] ballI)
  let ?ks = "take (nat limit) (ranked ar sd sv td facts)"
  show "queryTopRelated_sql sd sv td limit
          = create_view_text @ render_select (topRelated_select sd sv td limit)"
    by (rule sql_text)
  show "literal_value (apostrophe # esc sv @ [apostrophe]) = Some sv"
    by (rule literal_value_esc)
  show "run_select ar (topRelated_select sd sv td limit) facts
          = Inr (map (expected_row ar sd sv td facts) ?ks)"
    by (rule run_ranked [OF assms])
  show "int (length ?ks) \<le> limit"
    using assms by simp
  show "length ?ks = min (nat limit) (card (related_entities sd sv td facts))"
    by (simp add: ranked_length min.commute)
  show "distinct ?ks"
    by (simp add: ranked_distinct)
  show "set ?ks \<subseteq> related_entities sd sv td facts"
    using set_take_subset [of "nat limit" "ranked ar sd sv td facts"]
    by (simp add: ranked_set)
  show "sorted_wrt (\<lambda>a b. expected_total ar sd sv td facts b
                            \<le> expected_total ar sd sv td facts a) ?ks"
    using ranked_sorted [of ar sd sv td facts] by (rule sorted_wrt_take)
  fix k k'
  assume "k \<in> set ?ks" and "k' \<in> related_entities sd sv td facts - set ?ks"
  then show "expected_total ar sd sv td facts k' \<le> expected_total ar sd sv td facts k"
    using take_is_top [OF ranked_sorted ranked_distinct, of k "nat limit" ar sd sv td facts k']
    by (simp add: ranked_set)
qed

lemma sample_run:
  "run_select rational_arithmetic (topRelated_select contractor ''ACME CORP'' area 1) sample_facts
     = Inr [[(''entity'', Some (Text ''Cebu'')),
             (''contract_count'', Some (Count 1)),
             (''total_contract_value'', Some (Number 300)),
             (''average_contract_value'', Some (Number 300)),
             (''first_contract_date'', Some (Date 20)),
             (''last_contract_date'', Some (Date 20))]]"
  by code_simp

lemma sample_card: "card (related_entities contractor ''ACME CORP'' area sample_facts) = 2"
  by code_simp

lemma sample_expected:
  "expected_row rational_arithmetic contractor ''ACME CORP'' area sample_facts ''Metro''
     = [(''entity'', Some (Text ''Metro'')),
        (''contract_count'', Some (Count 2)),
        (''total_contract_value'', Some (Number 150)),
        (''average_contract_value'', Some (Number 75)),
        (''first_contract_date'', Some (Date 5)),
        (''last_contract_date'', Some (Date 10))]"
  by code_simp

theorem C6_topRelated_witness:
  "(0::int) \<le> 1
   \<and> (\<exists>ks. run_select rational_arithmetic
               (topRelated_select contractor ''ACME CORP'' area 1) sample_facts
             = Inr (map (expected_row rational_arithmetic contractor ''ACME CORP'' area
                           sample_facts) ks)
          \<and> length ks = 1)
   \<and> run_select rational_arithmetic (topRelated_select contractor ''ACME CORP'' area 1)
       sample_facts
     = Inr [[(''entity'', Some (Text ''Cebu'')),
             (''contract_count'', Some (Count 1)),
             (''total_contract_value'', Some (Number 300)),
             (''average_contract_value'', Some (Number 300)),
             (''first_contract_date'', Some (Date 20)),
             (''last_contract_date'', Some (Date 20))]]"
proof -
  have h: "(0::int) \<le> 1" by simp
  from C6_topRelated_rows [OF h, of contractor "''ACME CORP''" area rational_arithmetic sample_facts]
  obtain ks where
    "run_select rational_arithmetic (topRelated_select contractor ''ACME CORP'' area 1)
       sample_facts
     = Inr (map (expected_row rational_arithmetic contractor ''ACME CORP'' area sample_facts) ks)"
    and "length ks = min (nat 1) (card (related_entities contractor ''ACME CORP'' area sample_facts))"
    by blast
  then have "\<exists>ks. run_select rational_arithmetic
               (topRelated_select contractor ''ACME CORP'' area 1) sample_facts
             = Inr (map (expected_row rational_arithmetic contractor ''ACME CORP'' area
                           sample_facts) ks)
          \<and> length ks = 1"
    by (auto simp: sample_card)
  with h sample_run show ?thesis by blast
qed

lemma run_negative_limit:
  "limit < 0 \<Longrightarrow> run_select ar (topRelated_select sd sv td limit) facts = Inl Negative_limit"
  by (simp add: run_select_def topRelated_select_def dimToCol_related_table text_column_table
      number_column_def date_column_def numeric_alias_def)

end
